theory Spec2Isabelle
  imports Complex_Main "HOL-Library.Word"
begin

section \<open>Python values, errors and loops\<close>

text \<open>
  The converter \<^verbatim>\<open>cjseq2cb.py\<close> is modelled function by function. An uncaught Python
  exception is a value \<open>Inl e\<close> of the result type \<open>error + 'a\<close>; a \<^verbatim>\<open>for\<close> loop is
  a fold or a map that stops at the first exception.
\<close>

datatype error =
    KeyError string
  | IndexError
  | ValueError
  | TypeError
  | OverflowError
  | AttributeError string
  | UnboundLocalError string
  | NameError string
  | UnicodeEncodeError
  | PyException string

type_synonym byte = "8 word"
type_synonym uint32 = "32 word"

text \<open>\<^verbatim>\<open>for x in xs: s = f(s, x)\<close>, left to right, aborting at the first exception.\<close>

fun for_fold :: "('s \<Rightarrow> 'x \<Rightarrow> error + 's) \<Rightarrow> 'x list \<Rightarrow> 's \<Rightarrow> error + 's" where
  "for_fold f [] s = Inr s"
| "for_fold f (x # xs) s = (case f s x of Inl e \<Rightarrow> Inl e | Inr s' \<Rightarrow> for_fold f xs s')"

text \<open>\<^verbatim>\<open>for x in xs: out.append(f(x))\<close>, aborting at the first exception.\<close>

fun for_append :: "('x \<Rightarrow> error + 'y) \<Rightarrow> 'x list \<Rightarrow> error + 'y list" where
  "for_append f [] = Inr []"
| "for_append f (x # xs) =
     (case f x of
        Inl e \<Rightarrow> Inl e
      | Inr y \<Rightarrow> (case for_append f xs of Inl e \<Rightarrow> Inl e | Inr ys \<Rightarrow> Inr (y # ys)))"

text \<open>A Python dict read from JSON: an association list in insertion order.\<close>

definition dict_get :: "(string \<times> 'v) list \<Rightarrow> string \<Rightarrow> error + 'v" where
  "dict_get d k = (case map_of d k of None \<Rightarrow> Inl (KeyError k) | Some v \<Rightarrow> Inr v)"

fun dict_set :: "(string \<times> 'v) list \<Rightarrow> string \<Rightarrow> 'v \<Rightarrow> (string \<times> 'v) list" where
  "dict_set [] k v = [(k, v)]"
| "dict_set ((k', v') # d) k v =
     (if k' = k then (k, v) # d else (k', v') # dict_set d k v)"

text \<open>\<^verbatim>\<open>s.split(c)\<close> for a one-character separator: never empty, one part more than
  there are separators.\<close>

fun split_on :: "char \<Rightarrow> string \<Rightarrow> string list" where
  "split_on c [] = [[]]"
| "split_on c (x # xs) =
     (if x = c then [] # split_on c xs
      else (case split_on c xs of w # ws \<Rightarrow> (x # w) # ws | [] \<Rightarrow> [[x]]))"

text \<open>\<^verbatim>\<open>c.join(parts)\<close>, used to write command lines and identifiers down.\<close>

fun join_with :: "char \<Rightarrow> string list \<Rightarrow> string" where
  "join_with c [] = []"
| "join_with c [p] = p"
| "join_with c (p # q # ps) = p @ c # join_with c (q # ps)"

section \<open>Bytes: \<^verbatim>\<open>int.to_bytes\<close>, \<^verbatim>\<open>str.encode\<close> and the magic prefix\<close>

fun le_bytes :: "nat \<Rightarrow> nat \<Rightarrow> byte list" where
  "le_bytes 0 n = []"
| "le_bytes (Suc k) n = of_nat (n mod 256) # le_bytes k (n div 256)"

text \<open>\<^verbatim>\<open>n.to_bytes(k, byteorder='little', signed=False)\<close>: \<^verbatim>\<open>OverflowError\<close> when \<open>n\<close>
  is negative or does not fit \<open>k\<close> bytes.\<close>

definition to_bytes :: "int \<Rightarrow> nat \<Rightarrow> error + byte list" where
  "to_bytes n k =
     (if n < 0 \<or> 256 ^ k \<le> n then Inl OverflowError else Inr (le_bytes k (nat n)))"

definition encode_ascii :: "string \<Rightarrow> error + byte list" where
  "encode_ascii s =
     (if list_all (\<lambda>c. (of_char c :: nat) < 128) s then Inr (map of_char s)
      else Inl UnicodeEncodeError)"

text \<open>\<^verbatim>\<open>create_magic_bytes(major, minor)\<close>, lines 44 to 51 (the \<^verbatim>\<open>print\<close> is left out).\<close>

definition create_magic_bytes :: "int \<Rightarrow> int \<Rightarrow> error + byte list" where
  "create_magic_bytes major minor =
     (case encode_ascii ''FCB'' of
        Inl e \<Rightarrow> Inl e
      | Inr cb \<Rightarrow>
          (case to_bytes major 1 of
             Inl e \<Rightarrow> Inl e
           | Inr ma \<Rightarrow>
               (case to_bytes minor 1 of
                  Inl e \<Rightarrow> Inl e
                | Inr mi \<Rightarrow> Inr (cb @ ma @ cb @ mi))))"

section \<open>The \<^verbatim>\<open>--schema\<close> option\<close>

datatype py_type = PyStr | PyInt | PyFloat | PyBool | PyDict

text \<open>\<^verbatim>\<open>type_map\<close>, lines 405 to 412.\<close>

definition type_map :: "(string \<times> py_type) list" where
  "type_map =
     [(''str'', PyStr), (''int'', PyInt), (''float'', PyFloat), (''bool'', PyBool),
      (''json'', PyDict)]"

text \<open>Lines 413 to 415: \<^verbatim>\<open>name, atype = pair.split(':')\<close> raises \<^verbatim>\<open>ValueError\<close> unless
  the pair has exactly one colon; \<^verbatim>\<open>type_map[atype]\<close> raises \<^verbatim>\<open>KeyError\<close>.\<close>

fun schema_pairs ::
  "string list \<Rightarrow> (string \<times> py_type) list \<Rightarrow> error + (string \<times> py_type) list" where
  "schema_pairs [] pretyped_attributes = Inr pretyped_attributes"
| "schema_pairs (pair # pairs) pretyped_attributes =
     (case split_on CHR '':'' pair of
        [name, atype] \<Rightarrow>
          (case dict_get type_map atype of
             Inl e \<Rightarrow> Inl e
           | Inr t \<Rightarrow> schema_pairs pairs (dict_set pretyped_attributes name t))
      | _ \<Rightarrow> Inl ValueError)"

text \<open>Lines 403 to 415 of the main block: \<open>None\<close> is an option that was not given; an
  empty string is falsy as well.\<close>

definition main_pretyped_attributes ::
  "string option \<Rightarrow> error + (string \<times> py_type) list" where
  "main_pretyped_attributes schema =
     (case schema of
        None \<Rightarrow> Inr []
      | Some s \<Rightarrow> if s = [] then Inr [] else schema_pairs (split_on CHR '','' s) [])"

section \<open>The parsed input\<close>

text \<open>
  A number as \<^verbatim>\<open>json.loads\<close> and numpy hold it in a float64 cell: finite, infinite or
  not a number. Only comparisons are made on them, so a finite value is kept as a real.
  The bounding boxes and the transform of the input are taken to be lists of such
  values: the conversion of a JSON integer to a float64 (its rounding, and the
  \<^verbatim>\<open>OverflowError\<close> of an integer beyond the float64 range) lies before the model.
\<close>

datatype f64 = NegInf | Finite real | PosInf | NaN

datatype json =
    JNull
  | JBool bool
  | JInt int
  | JFloat f64
  | JStr string
  | JArr "json list"
  | JObj "(string \<times> json) list"

type_synonym attrs = "(string \<times> json) list"

text \<open>Python truthiness of a parsed JSON value (\<^verbatim>\<open>if semantic_values:\<close>).\<close>

fun truthy :: "json \<Rightarrow> bool" where
  "truthy JNull = False"
| "truthy (JBool b) = b"
| "truthy (JInt n) = (n \<noteq> 0)"
| "truthy (JFloat x) = (x \<noteq> Finite 0)"
| "truthy (JStr s) = (s \<noteq> [])"
| "truthy (JArr xs) = (xs \<noteq> [])"
| "truthy (JObj d) = (d \<noteq> [])"

text \<open>
  The records below give every member the converter tests with \<^verbatim>\<open>in\<close>, or that a claim
  is about, an option (\<open>None\<close>: the key is absent). The other members the code reads
  (\<^verbatim>\<open>type\<close>, \<^verbatim>\<open>lod\<close>, \<^verbatim>\<open>boundaries\<close>, \<^verbatim>\<open>id\<close>, \<^verbatim>\<open>vertices\<close>, \<^verbatim>\<open>CityObjects\<close>) are taken
  as present and of the JSON type CityJSON gives them. A semantic surface is the dict
  itself, so that its \<^verbatim>\<open>type\<close> key can be missing.
\<close>

record cj_semantics =
  sem_surfaces :: "attrs list option"
  sem_values :: "json option"

record cj_geometry =
  geom_type :: string
  geom_lod :: string
  geom_boundaries :: json
  geom_semantics :: "cj_semantics option"

record cj_object =
  obj_type :: string
  obj_attributes :: "attrs option"
  obj_geometry :: "cj_geometry list option"
  obj_parents :: "string list option"
  obj_children :: "string list option"
  obj_geographicalExtent :: "f64 list option"

record cj_feature =
  feat_id :: string
  feat_vertices :: "int list list"
  feat_CityObjects :: "(string \<times> cj_object) list"

record cj_transform =
  tr_scale :: "f64 list option"
  tr_translate :: "f64 list option"

record cj_metadata_member =
  md_geographicalExtent :: "f64 list option"
  md_referenceSystem :: "string option"

record cj_metadata =
  meta_transform :: "cj_transform option"
  meta_metadata :: "cj_metadata_member option"

section \<open>The tables that are built\<close>

text \<open>
  The FlatBuffers builder is an external library: a table is modelled by its fields,
  an optional field that was never added being \<open>None\<close>, and a vector by its elements in
  the order a reader sees them. \<open>'a\<close> is the attribute buffer the attribute encoder
  returns, \<open>'t\<close> the column type it reports.

  The builder appends to one buffer and \<^verbatim>\<open>builder.Output()\<close> returns all of it, also
  what no field refers to. Wherever the code writes a vector whether or not it adds it
  to a table, the vector as written is kept beside the fields: the last two members of
  a geometry table are the vector of semantic objects (lines 66 to 80) and the
  semantics vector (lines 128 to 135) as they were written, \<open>None\<close> when they were
  not. Everything else the code writes it also adds to its table.
\<close>

record 'a semantic_object_table =
  so_type :: nat
  so_attributes :: 'a

record 'a geometry_table =
  gt_type :: nat
  gt_lod :: string
  gt_solids :: "uint32 list option"
  gt_shells :: "uint32 list option"
  gt_surfaces :: "uint32 list option"
  gt_strings :: "uint32 list option"
  gt_boundaries :: "uint32 list"
  gt_semantics_objects :: "'a semantic_object_table list option"
  gt_semantics :: "uint32 list option"
  gt_written_semantics_objects :: "'a semantic_object_table list option"
  gt_written_semantics :: "uint32 list option"

record 'a city_object_table =
  ot_type :: nat
  ot_id :: string
  ot_attributes :: "'a option"
  ot_geometry :: "'a geometry_table list option"
  ot_children :: "string list option"
  ot_parents :: "string list option"
  ot_geographical_extent :: "((f64 \<times> f64 \<times> f64) \<times> (f64 \<times> f64 \<times> f64)) option"

record 'a city_feature_table =
  ft_id :: string
  ft_vertices :: "(int \<times> int \<times> int) list"
  ft_objects :: "'a city_object_table list"

record reference_system_table =
  rs_authority :: string
  rs_version :: int
  rs_code :: int

record 't header_table =
  ht_features_count :: nat
  ht_transform :: "(f64 \<times> f64 \<times> f64) \<times> (f64 \<times> f64 \<times> f64)"
  ht_reference_system :: "reference_system_table option"
  ht_columns :: "(string \<times> 't) list"
  ht_geographical_extent :: "(f64 \<times> f64 \<times> f64) \<times> (f64 \<times> f64 \<times> f64)"

section \<open>The collaborators that are not part of the converter\<close>

text \<open>The fields of a \<^verbatim>\<open>GeometryEncoder\<close> after encoding, as the converter reads them.\<close>

record geometry_encoder =
  gd_solids :: "int list"
  gd_shells :: "int list"
  gd_surfaces :: "int list"
  gd_strings :: "int list"
  gd_indices :: "int list"
  gd_semantic_values :: "int option list"

text \<open>
  \<^verbatim>\<open>attributes.py\<close>, \<^verbatim>\<open>geometry.py\<close> and the generated package \<^verbatim>\<open>CityBuf_\<close> are imported
  by the converter and are not part of it. Every function here takes them as a
  parameter \<open>c\<close>, and the theorems hold for every \<open>c\<close>:
  \<^item> \<open>se_new\<close>, \<open>se_add\<close>, \<open>se_encode_values\<close>, \<open>se_schema\<close>, \<open>se_get_cb_column_type\<close>:
    the constructor and the methods of \<^verbatim>\<open>AttributeSchemaEncoder\<close> over its state \<open>'s\<close>
    (\<open>se_schema\<close> gives the keys of \<^verbatim>\<open>schema\<close> in order); an encoder object is taken to
    be truthy, as an object without \<^verbatim>\<open>__bool__\<close> or \<^verbatim>\<open>__len__\<close> is;
  \<^item> \<open>ge_encode\<close>: \<^verbatim>\<open>gd = GeometryEncoder(); gd.encode(boundaries)\<close>;
    \<open>ge_encode_semantics\<close>: \<^verbatim>\<open>gd.encode_semantics(values)\<close>;
  \<^item> \<open>SemanticSurfaceType\<close>, \<open>CityObjectType\<close>, \<open>GeometryType\<close>: the members of the
    generated enumerations by name;
  \<^item> \<open>scalar_ok\<close>: whether the generated function of that name accepts the integer
    for its scalar field (the builder raises \<^verbatim>\<open>TypeError\<close> out of range);
  \<^item> \<open>feature_output\<close>, \<open>header_output\<close>: \<^verbatim>\<open>builder.Output()\<close> of the finished table.
  The last two members are the state of the module and of the interpreter.
  \<open>counters_defined\<close> says whether the module-level diagnostic counters
  (\<^verbatim>\<open>total_vertex_size\<close> and the others) are bound: the main block binds them; in a
  module that is imported they are not, and the first \<^verbatim>\<open>+=\<close> on one raises
  \<^verbatim>\<open>NameError\<close>. \<open>int_max_str_digits\<close> is \<^verbatim>\<open>sys.get_int_max_str_digits()\<close>, the limit on
  the digits \<^verbatim>\<open>int(text)\<close> reads (4300 by default since Python 3.11; 0, and every
  earlier interpreter, is no limit).
\<close>

record ('s, 'a, 't) collaborators =
  se_new :: "(string \<times> py_type) list \<Rightarrow> bool \<Rightarrow> 's"
  se_add :: "'s \<Rightarrow> attrs \<Rightarrow> string list \<Rightarrow> error + 's"
  se_encode_values :: "'s \<Rightarrow> attrs \<Rightarrow> string list \<Rightarrow> error + 'a"
  se_schema :: "'s \<Rightarrow> string list"
  se_get_cb_column_type :: "'s \<Rightarrow> string \<Rightarrow> error + 't"
  ge_encode :: "json \<Rightarrow> error + geometry_encoder"
  ge_encode_semantics :: "geometry_encoder \<Rightarrow> json \<Rightarrow> error + geometry_encoder"
  SemanticSurfaceType :: "string \<Rightarrow> nat option"
  CityObjectType :: "string \<Rightarrow> nat option"
  GeometryType :: "string \<Rightarrow> nat option"
  scalar_ok :: "string \<Rightarrow> int \<Rightarrow> bool"
  feature_output :: "'a city_feature_table \<Rightarrow> byte list"
  header_output :: "'t header_table \<Rightarrow> byte list"
  counters_defined :: bool
  int_max_str_digits :: nat

text \<open>\<^verbatim>\<open>counter += ...\<close> on a module-level counter declared \<^verbatim>\<open>global\<close>.\<close>

definition add_to_counter :: "('s, 'a, 't) collaborators \<Rightarrow> string \<Rightarrow> error + unit" where
  "add_to_counter c name = (if counters_defined c then Inr () else Inl (NameError name))"

text \<open>\<^verbatim>\<open>get_attribute_by_name\<close>, lines 53 and 54: \<^verbatim>\<open>getattr\<close> with default \<^verbatim>\<open>None\<close>.\<close>

definition get_attribute_by_name :: "(string \<Rightarrow> nat option) \<Rightarrow> string \<Rightarrow> nat option" where
  "get_attribute_by_name class_type attribute_name = class_type attribute_name"

text \<open>Adding an enumeration member to a table: the builder raises \<^verbatim>\<open>TypeError\<close> on
  \<^verbatim>\<open>None\<close>.\<close>

definition add_enum :: "nat option \<Rightarrow> error + nat" where
  "add_enum v = (case v of None \<Rightarrow> Inl TypeError | Some n \<Rightarrow> Inr n)"

section \<open>Vectors of the builder\<close>

text \<open>
  A vector is filled back to front: the code walks the elements in reverse and prepends
  each. \<^verbatim>\<open>builder.PrependUint32(x)\<close> raises \<^verbatim>\<open>TypeError\<close> when \<open>x\<close> is not in the range of
  an unsigned 32-bit integer.
\<close>

definition PrependUint32 :: "uint32 list \<Rightarrow> int \<Rightarrow> error + uint32 list" where
  "PrependUint32 vec x =
     (if 0 \<le> x \<and> x < 2 ^ 32 then Inr (word_of_int x # vec) else Inl TypeError)"

text \<open>\<^verbatim>\<open>for x in reversed(xs): builder.PrependUint32(x)\<close>, then \<^verbatim>\<open>EndVector\<close>.\<close>

definition uint32_vector :: "int list \<Rightarrow> error + uint32 list" where
  "uint32_vector xs = for_fold PrependUint32 (rev xs) []"

text \<open>Lines 104 to 126: a level's vector is built only \<^verbatim>\<open>if len(...)\<close>; otherwise its
  offset variable stays unbound (\<open>None\<close>).\<close>

definition level_vector :: "int list \<Rightarrow> error + uint32 list option" where
  "level_vector xs =
     (if length xs \<noteq> 0
      then (case uint32_vector xs of Inl e \<Rightarrow> Inl e | Inr v \<Rightarrow> Inr (Some v))
      else Inr None)"

text \<open>Lines 128 to 135: \<^verbatim>\<open>None\<close> becomes \<^verbatim>\<open>np.iinfo(np.uint32).max\<close>.\<close>

definition prepend_semantic :: "uint32 list \<Rightarrow> int option \<Rightarrow> error + uint32 list" where
  "prepend_semantic vec sem =
     (case sem of
        None \<Rightarrow> PrependUint32 vec 4294967295
      | Some v \<Rightarrow> PrependUint32 vec v)"

definition semantics_vector :: "int option list \<Rightarrow> error + uint32 list option" where
  "semantics_vector sems =
     (if length sems \<noteq> 0
      then (case for_fold prepend_semantic (rev sems) [] of
              Inl e \<Rightarrow> Inl e
            | Inr v \<Rightarrow> Inr (Some v))
      else Inr None)"

text \<open>\<^verbatim>\<open>for o in reversed(offsets): builder.PrependUOffsetTRelative(o)\<close>.\<close>

definition offset_vector :: "'x list \<Rightarrow> 'x list" where
  "offset_vector offsets = fold (\<lambda>offset vec. offset # vec) (rev offsets) []"

text \<open>Reading a local variable that no executed branch has bound.\<close>

definition read_local :: "string \<Rightarrow> 'x option \<Rightarrow> error + 'x" where
  "read_local name v = (case v of None \<Rightarrow> Inl (UnboundLocalError name) | Some x \<Rightarrow> Inr x)"

text \<open>\<^verbatim>\<open>if cond: Table.AddField(builder, variable)\<close>: the field is present exactly when
  the condition holds, and the variable is read only then.\<close>

definition add_if :: "bool \<Rightarrow> string \<Rightarrow> 'x option \<Rightarrow> error + 'x option" where
  "add_if cond name v =
     (if cond then (case read_local name v of Inl e \<Rightarrow> Inl e | Inr x \<Rightarrow> Inr (Some x))
      else Inr None)"

text \<open>\<^verbatim>\<open>v[0], v[1], v[2]\<close>.\<close>

fun first3 :: "'x list \<Rightarrow> error + ('x \<times> 'x \<times> 'x)" where
  "first3 (a # b # c # _) = Inr (a, b, c)"
| "first3 _ = Inl IndexError"

section \<open>\<^verbatim>\<open>create_geometry\<close>, lines 59 to 155\<close>

text \<open>Lines 70 to 74, the body of the loop over \<^verbatim>\<open>semantics["surfaces"]\<close>. With no
  encoder (\<^verbatim>\<open>None\<close>) the method call raises \<^verbatim>\<open>AttributeError\<close>; \<^verbatim>\<open>getattr\<close> raises
  \<^verbatim>\<open>TypeError\<close> on a name that is not a string.\<close>

definition create_semantic_object ::
  "('s, 'a, 't) collaborators \<Rightarrow> 's option \<Rightarrow> attrs \<Rightarrow> error + 'a semantic_object_table" where
  "create_semantic_object c schema_encoder surface =
     (case schema_encoder of
        None \<Rightarrow> Inl (AttributeError ''encode_values'')
      | Some se \<Rightarrow>
          (case se_encode_values c se surface [''type''] of
             Inl e \<Rightarrow> Inl e
           | Inr f_attributes_offset \<Rightarrow>
               (case dict_get surface ''type'' of
                  Inl e \<Rightarrow> Inl e
                | Inr (JStr name) \<Rightarrow>
                    (case add_enum (get_attribute_by_name (SemanticSurfaceType c) name) of
                       Inl e \<Rightarrow> Inl e
                     | Inr t \<Rightarrow> Inr \<lparr>so_type = t, so_attributes = f_attributes_offset\<rparr>)
                | Inr _ \<Rightarrow> Inl TypeError)))"

text \<open>Lines 62 to 84: the value of \<^verbatim>\<open>semantic_values\<close> (\<open>JNull\<close> is Python's \<^verbatim>\<open>None\<close>) and
  the variable \<^verbatim>\<open>f_semantics_objects\<close>, bound only in the branch with both members:
  the vector of semantic objects, written into the buffer there (line 80 adds its size
  to a counter).\<close>

definition semantics_block ::
  "('s, 'a, 't) collaborators \<Rightarrow> 's option \<Rightarrow> cj_geometry \<Rightarrow>
     error + (json \<times> 'a semantic_object_table list option)" where
  "semantics_block c schema_encoder geom =
     (case geom_semantics geom of
        None \<Rightarrow> Inr (JNull, None)
      | Some semantics \<Rightarrow>
          (case sem_surfaces semantics of
             None \<Rightarrow> Inl (PyException ''Semantics must have surfaces and values'')
           | Some surfs \<Rightarrow>
               (case sem_values semantics of
                  None \<Rightarrow> Inl (PyException ''Semantics must have surfaces and values'')
                | Some vals \<Rightarrow>
                    (case for_append (create_semantic_object c schema_encoder) surfs of
                       Inl e \<Rightarrow> Inl e
                     | Inr f_semantics_offsets \<Rightarrow>
                         (case add_to_counter c ''total_semantics_size'' of
                            Inl e \<Rightarrow> Inl e
                          | Inr _ \<Rightarrow>
                              Inr (vals, Some (offset_vector f_semantics_offsets)))))))"

text \<open>Lines 90 to 93.\<close>

definition run_geometry_encoder ::
  "('s, 'a, 't) collaborators \<Rightarrow> json \<Rightarrow> json \<Rightarrow> error + geometry_encoder" where
  "run_geometry_encoder c boundaries semantic_values =
     (case ge_encode c boundaries of
        Inl e \<Rightarrow> Inl e
      | Inr gd \<Rightarrow>
          if truthy semantic_values then ge_encode_semantics c gd semantic_values
          else Inr gd)"

text \<open>Lines 97 to 137: the vectors, each in a local variable that stays unbound
  (\<open>None\<close>) when its \<^verbatim>\<open>if len(...)\<close> is false; lines 101, 102 and 137 add to counters.\<close>

record geometry_vectors =
  f_boundaries_offset :: "uint32 list"
  f_solids_offset :: "uint32 list option"
  f_shells_offset :: "uint32 list option"
  f_surfaces_offset :: "uint32 list option"
  f_rings_offset :: "uint32 list option"
  f_semantics :: "uint32 list option"

definition build_vectors ::
  "('s, 'a, 't) collaborators \<Rightarrow> geometry_encoder \<Rightarrow> error + geometry_vectors" where
  "build_vectors c gd =
     (case uint32_vector (gd_indices gd) of
        Inl e \<Rightarrow> Inl e
      | Inr fb \<Rightarrow>
     (case add_to_counter c ''total_indices_size'' of
        Inl e \<Rightarrow> Inl e
      | Inr _ \<Rightarrow>
     (case level_vector (gd_solids gd) of
        Inl e \<Rightarrow> Inl e
      | Inr fso \<Rightarrow>
     (case level_vector (gd_shells gd) of
        Inl e \<Rightarrow> Inl e
      | Inr fsh \<Rightarrow>
     (case level_vector (gd_surfaces gd) of
        Inl e \<Rightarrow> Inl e
      | Inr fsu \<Rightarrow>
     (case level_vector (gd_strings gd) of
        Inl e \<Rightarrow> Inl e
      | Inr fri \<Rightarrow>
     (case semantics_vector (gd_semantic_values gd) of
        Inl e \<Rightarrow> Inl e
      | Inr fse \<Rightarrow>
     (case add_to_counter c ''total_boundaries_size'' of
        Inl e \<Rightarrow> Inl e
      | Inr _ \<Rightarrow>
          Inr \<lparr>f_boundaries_offset = fb, f_solids_offset = fso, f_shells_offset = fsh,
               f_surfaces_offset = fsu, f_rings_offset = fri, f_semantics = fse\<rparr>))))))))"

text \<open>Lines 139 to 155: the table, and beside it the two vectors as written.\<close>

definition geometry_end ::
  "('s, 'a, 't) collaborators \<Rightarrow> cj_geometry \<Rightarrow> geometry_encoder \<Rightarrow> geometry_vectors \<Rightarrow>
     json \<Rightarrow> 'a semantic_object_table list option \<Rightarrow> error + 'a geometry_table" where
  "geometry_end c geom gd vs semantic_values f_semantics_objects =
     (case add_enum (get_attribute_by_name (GeometryType c) (geom_type geom)) of
        Inl e \<Rightarrow> Inl e
      | Inr ty \<Rightarrow>
     (case add_if (length (gd_solids gd) \<noteq> 0) ''f_solids_offset'' (f_solids_offset vs) of
        Inl e \<Rightarrow> Inl e
      | Inr so \<Rightarrow>
     (case add_if (length (gd_shells gd) \<noteq> 0) ''f_shells_offset'' (f_shells_offset vs) of
        Inl e \<Rightarrow> Inl e
      | Inr sh \<Rightarrow>
     (case add_if (length (gd_surfaces gd) \<noteq> 0) ''f_surfaces_offset'' (f_surfaces_offset vs) of
        Inl e \<Rightarrow> Inl e
      | Inr su \<Rightarrow>
     (case add_if (length (gd_strings gd) \<noteq> 0) ''f_rings_offset'' (f_rings_offset vs) of
        Inl e \<Rightarrow> Inl e
      | Inr ri \<Rightarrow>
     (case add_if (truthy semantic_values) ''f_semantics_objects'' f_semantics_objects of
        Inl e \<Rightarrow> Inl e
      | Inr sobjs \<Rightarrow>
     (case add_if (truthy semantic_values) ''f_semantics'' (f_semantics vs) of
        Inl e \<Rightarrow> Inl e
      | Inr sems \<Rightarrow>
          Inr \<lparr>gt_type = ty, gt_lod = geom_lod geom, gt_solids = so, gt_shells = sh,
               gt_surfaces = su, gt_strings = ri,
               gt_boundaries = f_boundaries_offset vs,
               gt_semantics_objects = sobjs, gt_semantics = sems,
               gt_written_semantics_objects = f_semantics_objects,
               gt_written_semantics = f_semantics vs\<rparr>)))))))"

definition create_geometry ::
  "('s, 'a, 't) collaborators \<Rightarrow> 's option \<Rightarrow> cj_geometry \<Rightarrow> error + 'a geometry_table" where
  "create_geometry c schema_encoder geom =
     (case semantics_block c schema_encoder geom of
        Inl e \<Rightarrow> Inl e
      | Inr (semantic_values, f_semantics_objects) \<Rightarrow>
          (case run_geometry_encoder c (geom_boundaries geom) semantic_values of
             Inl e \<Rightarrow> Inl e
           | Inr gd \<Rightarrow>
               (case build_vectors c gd of
                  Inl e \<Rightarrow> Inl e
                | Inr vs \<Rightarrow>
                    geometry_end c geom gd vs semantic_values f_semantics_objects)))"

section \<open>Bounding boxes in numpy arrays\<close>

text \<open>A row of a \<open>2 \<times> 3\<close> float64 array, and the array.\<close>

type_synonym row = "f64 \<times> f64 \<times> f64"
type_synonym extent = "row \<times> row"

text \<open>\<^verbatim>\<open>array[i] = values\<close> for a list of numbers: three values fill the row, one value
  is broadcast, any other length raises \<^verbatim>\<open>ValueError\<close>. The values are float64 cells
  already (see the parsed input): what numpy does to a Python integer that is not a
  float64 is not part of the model.\<close>

fun np_assign_row :: "f64 list \<Rightarrow> error + row" where
  "np_assign_row [a, b, c] = Inr (a, b, c)"
| "np_assign_row [a] = Inr (a, a, a)"
| "np_assign_row _ = Inl ValueError"

text \<open>Lines 238 to 240 and 361 to 363: \<^verbatim>\<open>e[0] = x[0:3]; e[1] = x[3:6]\<close>.\<close>

definition extent_of_list :: "f64 list \<Rightarrow> error + extent" where
  "extent_of_list x =
     (case np_assign_row (take 3 x) of
        Inl e \<Rightarrow> Inl e
      | Inr lo \<Rightarrow>
          (case np_assign_row (take 3 (drop 3 x)) of
             Inl e \<Rightarrow> Inl e
           | Inr hi \<Rightarrow> Inr (lo, hi)))"

fun f64_less :: "f64 \<Rightarrow> f64 \<Rightarrow> bool" where
  "f64_less NaN y = False"
| "f64_less x NaN = False"
| "f64_less x NegInf = False"
| "f64_less NegInf y = True"
| "f64_less PosInf y = False"
| "f64_less x PosInf = True"
| "f64_less (Finite a) (Finite b) = (a < b)"

text \<open>\<^verbatim>\<open>np.minimum\<close> and \<^verbatim>\<open>np.maximum\<close> on one cell: a NaN operand is returned.\<close>

definition minimum1 :: "f64 \<Rightarrow> f64 \<Rightarrow> f64" where
  "minimum1 x y = (if x = NaN then x else if y = NaN then y else if f64_less y x then y else x)"

definition maximum1 :: "f64 \<Rightarrow> f64 \<Rightarrow> f64" where
  "maximum1 x y = (if x = NaN then x else if y = NaN then y else if f64_less x y then y else x)"

fun np_minimum :: "row \<Rightarrow> row \<Rightarrow> row" where
  "np_minimum (a, b, c) (x, y, z) = (minimum1 a x, minimum1 b y, minimum1 c z)"

fun np_maximum :: "row \<Rightarrow> row \<Rightarrow> row" where
  "np_maximum (a, b, c) (x, y, z) = (maximum1 a x, maximum1 b y, maximum1 c z)"

section \<open>\<^verbatim>\<open>create_object\<close>, lines 57 to 243\<close>

text \<open>Lines 175 to 183 and 186 to 194: the strings are created walking the list in
  reverse, and prepended in the order they were created.\<close>

definition string_vector :: "string list \<Rightarrow> string list" where
  "string_vector names = (let f_names = rev names in fold (\<lambda>name vec. name # vec) f_names [])"

text \<open>Lines 201 to 204, the body of the loop over \<^verbatim>\<open>cj_object["geometry"]\<close>.\<close>

definition object_geometry ::
  "('s, 'a, 't) collaborators \<Rightarrow> 's option \<Rightarrow> cj_geometry \<Rightarrow> error + 'a geometry_table" where
  "object_geometry c schema_encoder geom =
     (if geom_type geom = ''GeometryInstance''
      then Inl (PyException ''GeometryInstance is not supported at the moment'')
      else create_geometry c schema_encoder geom)"

text \<open>Lines 166 to 172: \<^verbatim>\<open>f_attributes_offset\<close> is bound only when the object has
  attributes and an encoder was given; line 172 adds to a counter.\<close>

definition object_attributes ::
  "('s, 'a, 't) collaborators \<Rightarrow> 's option \<Rightarrow> cj_object \<Rightarrow> error + 'a option" where
  "object_attributes c schema_encoder cj_object =
     (case obj_attributes cj_object of
        None \<Rightarrow> Inr None
      | Some attributes \<Rightarrow>
          (case schema_encoder of
             None \<Rightarrow> Inr None
           | Some se \<Rightarrow>
               (case se_encode_values c se attributes [] of
                  Inl e \<Rightarrow> Inl e
                | Inr buf_attributes \<Rightarrow>
                    (case add_to_counter c ''total_attributes_size'' of
                       Inl e \<Rightarrow> Inl e
                     | Inr _ \<Rightarrow> Inr (Some buf_attributes)))))"

definition create_object ::
  "('s, 'a, 't) collaborators \<Rightarrow> string \<Rightarrow> cj_object \<Rightarrow> 's option \<Rightarrow>
     error + 'a city_object_table" where
  "create_object c cj_id cj_object schema_encoder =
     (let has_children = (obj_children cj_object \<noteq> None);
          has_parents = (obj_parents cj_object \<noteq> None);
          has_attributes = (obj_attributes cj_object \<noteq> None);
          has_geometry = (obj_geometry cj_object \<noteq> None);
          has_geographical_extent = (obj_geographicalExtent cj_object \<noteq> None);
          f_id = cj_id
      in
      case object_attributes c schema_encoder cj_object of
        Inl e \<Rightarrow> Inl e
      | Inr f_attributes_offset \<Rightarrow>
     (let f_parents_offset = map_option string_vector (obj_parents cj_object);
          f_children_offset = map_option string_vector (obj_children cj_object)
      in
      case (case obj_geometry cj_object of
              None \<Rightarrow> Inr None
            | Some geoms \<Rightarrow>
                (case for_append (object_geometry c schema_encoder) geoms of
                   Inl e \<Rightarrow> Inl e
                 | Inr f_geoms \<Rightarrow>
                     (case add_to_counter c ''total_geometry_size'' of
                        Inl e \<Rightarrow> Inl e
                      | Inr _ \<Rightarrow> Inr (Some (offset_vector f_geoms))))) of
        Inl e \<Rightarrow> Inl e
      | Inr f_geometries_offset \<Rightarrow>
     (case add_enum (get_attribute_by_name (CityObjectType c) (obj_type cj_object)) of
        Inl e \<Rightarrow> Inl e
      | Inr ty \<Rightarrow>
     (case add_if has_attributes ''f_attributes_offset'' f_attributes_offset of
        Inl e \<Rightarrow> Inl e
      | Inr attributes \<Rightarrow>
     (case add_if has_geometry ''f_geometries_offset'' f_geometries_offset of
        Inl e \<Rightarrow> Inl e
      | Inr geometry \<Rightarrow>
     (case add_if has_children ''f_children_offset'' f_children_offset of
        Inl e \<Rightarrow> Inl e
      | Inr children \<Rightarrow>
     (case add_if has_parents ''f_parents_offset'' f_parents_offset of
        Inl e \<Rightarrow> Inl e
      | Inr parents \<Rightarrow>
     (case (case obj_geographicalExtent cj_object of
              None \<Rightarrow> Inr None
            | Some x \<Rightarrow>
                (case extent_of_list x of Inl e \<Rightarrow> Inl e | Inr gextent \<Rightarrow> Inr (Some gextent))) of
        Inl e \<Rightarrow> Inl e
      | Inr geographical_extent \<Rightarrow>
          Inr \<lparr>ot_type = ty, ot_id = f_id, ot_attributes = attributes,
               ot_geometry = geometry, ot_children = children, ot_parents = parents,
               ot_geographical_extent = geographical_extent\<rparr>))))))))"

section \<open>\<^verbatim>\<open>create_feature\<close>, lines 56 to 277\<close>

text \<open>Line 254: \<^verbatim>\<open>CreateVertex(builder, v[0], v[1], v[2])\<close>.\<close>

definition create_vertex ::
  "('s, 'a, 't) collaborators \<Rightarrow> int list \<Rightarrow> error + (int \<times> int \<times> int)" where
  "create_vertex c v =
     (case first3 v of
        Inl e \<Rightarrow> Inl e
      | Inr (x, y, z) \<Rightarrow>
          if scalar_ok c ''CreateVertex'' x \<and> scalar_ok c ''CreateVertex'' y
             \<and> scalar_ok c ''CreateVertex'' z
          then Inr (x, y, z) else Inl TypeError)"

text \<open>The feature table before \<^verbatim>\<open>builder.Output()\<close>. The vertices are walked in
  reverse (line 253), so the first exception is that of the last bad vertex; line 257
  adds to a counter. The values of the counters are diagnostics and are left out.\<close>

definition create_feature_table ::
  "('s, 'a, 't) collaborators \<Rightarrow> cj_feature \<Rightarrow> 's option \<Rightarrow> error + 'a city_feature_table" where
  "create_feature_table c cj_feature schema_encoder =
     (let f_id = feat_id cj_feature in
      case for_append (create_vertex c) (rev (feat_vertices cj_feature)) of
        Inl e \<Rightarrow> Inl e
      | Inr vs \<Rightarrow>
     (case add_to_counter c ''total_vertex_size'' of
        Inl e \<Rightarrow> Inl e
      | Inr _ \<Rightarrow>
          (case for_append (\<lambda>(cj_id, cj_object). create_object c cj_id cj_object schema_encoder)
                  (feat_CityObjects cj_feature) of
             Inl e \<Rightarrow> Inl e
           | Inr f_object_offsets \<Rightarrow>
               Inr \<lparr>ft_id = f_id, ft_vertices = rev vs,
                    ft_objects = offset_vector f_object_offsets\<rparr>)))"

definition create_feature ::
  "('s, 'a, 't) collaborators \<Rightarrow> cj_feature \<Rightarrow> 's option \<Rightarrow> error + byte list" where
  "create_feature c cj_feature schema_encoder =
     (case create_feature_table c cj_feature schema_encoder of
        Inl e \<Rightarrow> Inl e
      | Inr f \<Rightarrow> Inr (feature_output c f))"

section \<open>\<^verbatim>\<open>create_header\<close>, lines 279 to 332\<close>

text \<open>
  Python's \<^verbatim>\<open>int(text)\<close> on a string, whose characters are here the code points
  below 256. Surrounding whitespace is skipped: tab, line feed, vertical tab, form
  feed, carriage return and space, and of the characters outside ASCII the next-line
  control (133) and the no-break space (160), which CPython turns into a space before
  it reads the number; the separators 28 to 31 are not skipped. One sign is allowed,
  single underscores may stand between digits, and there is no decimal digit outside
  ASCII below 256. A number of more than 640 digits is refused when it has more
  digits than the interpreter's limit. \<open>None\<close> is \<^verbatim>\<open>ValueError\<close>.
\<close>

definition is_space :: "char \<Rightarrow> bool" where
  "is_space ch =
     (let n = (of_char ch :: nat) in (9 \<le> n \<and> n \<le> 13) \<or> n = 32 \<or> n = 133 \<or> n = 160)"

definition is_digit :: "char \<Rightarrow> bool" where
  "is_digit ch = (let n = (of_char ch :: nat) in 48 \<le> n \<and> n \<le> 57)"

definition digit_value :: "char \<Rightarrow> int" where
  "digit_value ch = int (of_char ch) - 48"

definition strip :: "string \<Rightarrow> string" where
  "strip s = rev (dropWhile is_space (rev (dropWhile is_space s)))"

fun int_digits :: "string \<Rightarrow> int \<Rightarrow> int option" where
  "int_digits [] acc = Some acc"
| "int_digits (ch # cs) acc =
     (if is_digit ch then int_digits cs (10 * acc + digit_value ch)
      else if ch = CHR ''_'' then
        (case cs of
           [] \<Rightarrow> None
         | d # ds \<Rightarrow> if is_digit d then int_digits ds (10 * acc + digit_value d) else None)
      else None)"

definition too_many_digits :: "nat \<Rightarrow> string \<Rightarrow> bool" where
  "too_many_digits max_str_digits s =
     (let digits = length (filter is_digit s)
      in 640 < digits \<and> 0 < max_str_digits \<and> max_str_digits < digits)"

definition int_body :: "nat \<Rightarrow> string \<Rightarrow> int option" where
  "int_body max_str_digits s =
     (case s of
        [] \<Rightarrow> None
      | ch # cs \<Rightarrow>
          if is_digit ch \<and> \<not> too_many_digits max_str_digits s
          then int_digits cs (digit_value ch) else None)"

definition py_int :: "nat \<Rightarrow> string \<Rightarrow> int option" where
  "py_int max_str_digits s =
     (case strip s of
        [] \<Rightarrow> None
      | ch # cs \<Rightarrow>
          if ch = CHR ''-'' then map_option uminus (int_body max_str_digits cs)
          else if ch = CHR ''+'' then int_body max_str_digits cs
          else int_body max_str_digits (ch # cs))"

text \<open>
  What the claim's ``parsed as integers'' is compared with: the integer that a text
  writes in decimal, its digits read in base ten and negated when the text has a minus
  sign. Which texts \<^verbatim>\<open>int\<close> accepts is not its business.
\<close>

definition parsed_integer :: "string \<Rightarrow> int" where
  "parsed_integer text =
     (let n = foldl (\<lambda>n ch. 10 * n + (int (of_char ch) - 48)) 0
                (filter (\<lambda>ch. ch \<in> set ''0123456789'') text)
      in if CHR ''-'' \<in> set text then - n else n)"

text \<open>\<^verbatim>\<open>xs[-3:]\<close>.\<close>

definition last3 :: "'x list \<Rightarrow> 'x list" where
  "last3 xs = drop (length xs - 3) xs"

text \<open>A scalar field of a generated table: \<^verbatim>\<open>int(text)\<close>, then the builder's range
  check.\<close>

definition int_field ::
  "('s, 'a, 't) collaborators \<Rightarrow> string \<Rightarrow> string \<Rightarrow> error + int" where
  "int_field c adder text =
     (case py_int (int_max_str_digits c) text of
        None \<Rightarrow> Inl ValueError
      | Some n \<Rightarrow> if scalar_ok c adder n then Inr n else Inl TypeError)"

text \<open>Lines 291 to 300: the tuple assignment raises \<^verbatim>\<open>ValueError\<close> unless the slice has
  three segments.\<close>

definition reference_system ::
  "('s, 'a, 't) collaborators \<Rightarrow> string \<Rightarrow> error + reference_system_table" where
  "reference_system c cj_crs =
     (case last3 (split_on CHR ''/'' cj_crs) of
        [authority, version, code] \<Rightarrow>
          (case int_field c ''ReferenceSystemAddVersion'' version of
             Inl e \<Rightarrow> Inl e
           | Inr v \<Rightarrow>
               (case int_field c ''ReferenceSystemAddCode'' code of
                  Inl e \<Rightarrow> Inl e
                | Inr n \<Rightarrow> Inr \<lparr>rs_authority = authority, rs_version = v, rs_code = n\<rparr>))
      | _ \<Rightarrow> Inl ValueError)"

text \<open>Lines 288 to 300: \<^verbatim>\<open>crs_offset\<close>, \<^verbatim>\<open>None\<close> unless the metadata has a
  \<^verbatim>\<open>referenceSystem\<close>.\<close>

definition header_crs ::
  "('s, 'a, 't) collaborators \<Rightarrow> cj_metadata \<Rightarrow> error + reference_system_table option" where
  "header_crs c cj_metadata =
     (case meta_metadata cj_metadata of
        None \<Rightarrow> Inr None
      | Some md \<Rightarrow>
          (case md_referenceSystem md of
             None \<Rightarrow> Inr None
           | Some cj_crs \<Rightarrow>
               (case reference_system c cj_crs of
                  Inl e \<Rightarrow> Inl e
                | Inr crs \<Rightarrow> Inr (Some crs))))"

text \<open>Lines 302 to 310, the body of the loop over \<^verbatim>\<open>schema_encoder.schema.items()\<close>.\<close>

definition header_column ::
  "('s, 'a, 't) collaborators \<Rightarrow> 's \<Rightarrow> string \<Rightarrow> error + (string \<times> 't)" where
  "header_column c se key =
     (case se_get_cb_column_type c se key of
        Inl e \<Rightarrow> Inl e
      | Inr f_type \<Rightarrow> Inr (key, f_type))"

text \<open>
  The header table and the warnings logged, before \<^verbatim>\<open>builder.Output()\<close>. The offset of
  a finished reference-system table is not zero, so \<^verbatim>\<open>if crs_offset:\<close> tests that it
  is not \<^verbatim>\<open>None\<close>. \<open>features_count\<close> and \<open>schema_encoder\<close> have the defaults \<open>3\<close> and
  \<^verbatim>\<open>None\<close> in the source.
\<close>

definition create_header_table ::
  "('s, 'a, 't) collaborators \<Rightarrow> cj_metadata \<Rightarrow> extent \<Rightarrow> nat \<Rightarrow> 's option \<Rightarrow>
     error + ('t header_table \<times> string list)" where
  "create_header_table c cj_metadata geographical_extent features_count schema_encoder =
     (case meta_transform cj_metadata of
        None \<Rightarrow> Inl (KeyError ''transform'')
      | Some tr \<Rightarrow>
     (case tr_scale tr of
        None \<Rightarrow> Inl (KeyError ''scale'')
      | Some ts \<Rightarrow>
     (case tr_translate tr of
        None \<Rightarrow> Inl (KeyError ''translate'')
      | Some tt \<Rightarrow>
     (case header_crs c cj_metadata of
        Inl e \<Rightarrow> Inl e
      | Inr crs_offset \<Rightarrow>
     (case schema_encoder of
        None \<Rightarrow> Inl (AttributeError ''schema'')
      | Some se \<Rightarrow>
     (case for_append (header_column c se) (se_schema c se) of
        Inl e \<Rightarrow> Inl e
      | Inr fb_columns \<Rightarrow>
     (case first3 ts of
        Inl e \<Rightarrow> Inl e
      | Inr scale \<Rightarrow>
     (case first3 tt of
        Inl e \<Rightarrow> Inl e
      | Inr translate \<Rightarrow>
          Inr (\<lparr>ht_features_count = features_count,
                ht_transform = (scale, translate),
                ht_reference_system = crs_offset,
                ht_columns = offset_vector fb_columns,
                ht_geographical_extent = geographical_extent\<rparr>,
               (if crs_offset = None then [''No CRS found in input metadata''] else []))))))))))"

definition create_header ::
  "('s, 'a, 't) collaborators \<Rightarrow> cj_metadata \<Rightarrow> extent \<Rightarrow> nat \<Rightarrow> 's option \<Rightarrow>
     error + (byte list \<times> string list)" where
  "create_header c cj_metadata geographical_extent features_count schema_encoder =
     (case create_header_table c cj_metadata geographical_extent features_count schema_encoder of
        Inl e \<Rightarrow> Inl e
      | Inr (header, warnings) \<Rightarrow> Inr (header_output c header, warnings))"

section \<open>\<^verbatim>\<open>convert_cjseq2cb\<close>, lines 334 to 393\<close>

text \<open>
  Lines 347 to 356. \<^verbatim>\<open>np.ndarray((2, 3))\<close> allocates without initialising: its
  contents are the parameter \<open>uninitialised\<close>. The result is the array and
  \<^verbatim>\<open>get_extent_from_features\<close>.
\<close>

definition seed_extent :: "extent \<Rightarrow> cj_metadata \<Rightarrow> error + (extent \<times> bool)" where
  "seed_extent uninitialised cj_metadata =
     (case meta_metadata cj_metadata of
        None \<Rightarrow> Inr (uninitialised, True)
      | Some md \<Rightarrow>
          (case md_geographicalExtent md of
             Some x \<Rightarrow>
               (case extent_of_list x of
                  Inl e \<Rightarrow> Inl e
                | Inr global_extent \<Rightarrow> Inr (global_extent, False))
           | None \<Rightarrow> Inr (((PosInf, PosInf, PosInf), (NegInf, NegInf, NegInf)), True)))"

text \<open>Lines 359 to 365.\<close>

definition fold_extent :: "bool \<Rightarrow> extent \<Rightarrow> cj_object \<Rightarrow> error + extent" where
  "fold_extent get_extent_from_features global_extent cj_object =
     (if get_extent_from_features then
        (case obj_geographicalExtent cj_object of
           None \<Rightarrow> Inr global_extent
         | Some x \<Rightarrow>
             (case extent_of_list x of
                Inl e \<Rightarrow> Inl e
              | Inr fext \<Rightarrow>
                  Inr (np_minimum (fst global_extent) (fst fext),
                       np_maximum (snd global_extent) (snd fext))))
      else Inr global_extent)"

text \<open>Lines 372 to 374: \<^verbatim>\<open>geom["semantics"]["surfaces"]\<close> is read without a test.\<close>

definition scan_geometry ::
  "('s, 'a, 't) collaborators \<Rightarrow> 's \<Rightarrow> cj_geometry \<Rightarrow> error + 's" where
  "scan_geometry c schema_encoder geom =
     (case geom_semantics geom of
        None \<Rightarrow> Inr schema_encoder
      | Some semantics \<Rightarrow>
          (case sem_surfaces semantics of
             None \<Rightarrow> Inl (KeyError ''surfaces'')
           | Some surfs \<Rightarrow>
               for_fold (\<lambda>se surface. se_add c se surface [''type'', ''parent'', ''children''])
                 surfs schema_encoder))"

text \<open>Lines 358 to 374, the body of the loop over the objects of a feature.\<close>

definition scan_object ::
  "('s, 'a, 't) collaborators \<Rightarrow> bool \<Rightarrow> extent \<times> 's \<Rightarrow> cj_object \<Rightarrow> error + (extent \<times> 's)" where
  "scan_object c get_extent_from_features state cj_object =
     (case fold_extent get_extent_from_features (fst state) cj_object of
        Inl e \<Rightarrow> Inl e
      | Inr global_extent \<Rightarrow>
          (case (case obj_attributes cj_object of
                   None \<Rightarrow> Inr (snd state)
                 | Some attributes \<Rightarrow> se_add c (snd state) attributes []) of
             Inl e \<Rightarrow> Inl e
           | Inr se \<Rightarrow>
               (case (case obj_geometry cj_object of
                        None \<Rightarrow> Inr se
                      | Some geoms \<Rightarrow> for_fold (scan_geometry c) geoms se) of
                  Inl e \<Rightarrow> Inl e
                | Inr se' \<Rightarrow> Inr (global_extent, se'))))"

text \<open>Lines 357 to 374: the first pass.\<close>

definition scan_feature ::
  "('s, 'a, 't) collaborators \<Rightarrow> bool \<Rightarrow> extent \<times> 's \<Rightarrow> cj_feature \<Rightarrow> error + (extent \<times> 's)" where
  "scan_feature c get_extent_from_features state cj_feature =
     for_fold (scan_object c get_extent_from_features)
       (map snd (feat_CityObjects cj_feature)) state"

definition scan_features ::
  "('s, 'a, 't) collaborators \<Rightarrow> extent \<Rightarrow> cj_metadata \<Rightarrow> cj_feature list \<Rightarrow> 's \<Rightarrow>
     error + (extent \<times> 's)" where
  "scan_features c uninitialised cj_metadata cj_features schema_encoder =
     (case seed_extent uninitialised cj_metadata of
        Inl e \<Rightarrow> Inl e
      | Inr (global_extent, get_extent_from_features) \<Rightarrow>
          for_fold (scan_feature c get_extent_from_features) cj_features
            (global_extent, schema_encoder))"

text \<open>Lines 391 to 393: the file so far, and the exception that stopped the loop.\<close>

fun write_features :: "byte list list \<Rightarrow> byte list \<Rightarrow> byte list \<times> error option" where
  "write_features [] file = (file, None)"
| "write_features (fb_feature # fb_features) file =
     (case to_bytes (int (length fb_feature)) 4 of
        Inl e \<Rightarrow> (file, Some e)
      | Inr n \<Rightarrow> write_features fb_features (file @ n @ fb_feature))"

text \<open>The outcome of a run: the bytes of the output file (\<open>None\<close> when it was never
  opened), the warnings logged, and the uncaught exception if there was one.\<close>

record run =
  run_file :: "byte list option"
  run_warnings :: "string list"
  run_error :: "error option"

text \<open>Lines 385 to 393: the file is opened, then written piece by piece.\<close>

definition write_container ::
  "('s, 'a, 't) collaborators \<Rightarrow> cj_metadata \<Rightarrow> extent \<Rightarrow> 's \<Rightarrow> byte list list \<Rightarrow> run" where
  "write_container c cj_metadata global_extent schema_encoder fb_features =
     (case create_magic_bytes 0 4 of
        Inl e \<Rightarrow> \<lparr>run_file = Some [], run_warnings = [], run_error = Some e\<rparr>
      | Inr magic \<Rightarrow>
     (case create_header c cj_metadata global_extent (length fb_features) (Some schema_encoder) of
        Inl e \<Rightarrow> \<lparr>run_file = Some magic, run_warnings = [], run_error = Some e\<rparr>
      | Inr (header_buf, warnings) \<Rightarrow>
     (case to_bytes (int (length header_buf)) 4 of
        Inl e \<Rightarrow> \<lparr>run_file = Some magic, run_warnings = warnings, run_error = Some e\<rparr>
      | Inr n \<Rightarrow>
          (case write_features fb_features (magic @ n @ header_buf) of
             (file, err) \<Rightarrow>
               \<lparr>run_file = Some file, run_warnings = warnings, run_error = err\<rparr>))))"

text \<open>
  The whole conversion, on the parsed lines of the input file (the metadata line and
  the feature lines in order). The diagnostic counters and the prints are left out:
  they do not reach the output file.
\<close>

definition convert_cjseq2cb ::
  "('s, 'a, 't) collaborators \<Rightarrow> extent \<Rightarrow> cj_metadata \<Rightarrow> cj_feature list \<Rightarrow>
     (string \<times> py_type) list \<Rightarrow> bool \<Rightarrow> run" where
  "convert_cjseq2cb c uninitialised cj_metadata cj_features pretyped_attributes write_nulls =
     (let schema_encoder = se_new c pretyped_attributes write_nulls in
      case scan_features c uninitialised cj_metadata cj_features schema_encoder of
        Inl e \<Rightarrow> \<lparr>run_file = None, run_warnings = [], run_error = Some e\<rparr>
      | Inr (global_extent, schema_encoder) \<Rightarrow>
          (case for_append (\<lambda>cj_feature. create_feature c cj_feature (Some schema_encoder))
                  cj_features of
             Inl e \<Rightarrow> \<lparr>run_file = None, run_warnings = [], run_error = Some e\<rparr>
           | Inr fb_features \<Rightarrow>
               write_container c cj_metadata global_extent schema_encoder fb_features))"

section \<open>An instance of the collaborators\<close>

text \<open>
  The theorems below hold for every collaborator. To run the converter on concrete
  inputs, one instance is written down from the design document of the converter.
\<close>

text \<open>Modelled from the spec: the state of \<^verbatim>\<open>AttributeSchemaEncoder\<close> (\<^verbatim>\<open>attributes.py\<close>),
  the ordered column schema (name to scalar type) and the null-write policy.\<close>

record schema_state =
  schema :: "(string \<times> py_type) list"
  write_nulls :: bool

text \<open>Modelled from the spec: the scalar type an observed value establishes (section
  4.1); a null establishes none.\<close>

fun value_kind :: "json \<Rightarrow> py_type option" where
  "value_kind JNull = None"
| "value_kind (JBool b) = Some PyBool"
| "value_kind (JInt n) = Some PyInt"
| "value_kind (JFloat x) = Some PyFloat"
| "value_kind (JStr s) = Some PyStr"
| "value_kind (JArr xs) = Some PyDict"
| "value_kind (JObj d) = Some PyDict"

text \<open>Modelled from the spec: \<^verbatim>\<open>AttributeSchemaEncoder.add\<close>, the \<open>observe\<close> of section
  4.1: a key that is not excluded and not yet in the schema gets the type of its value,
  first seen wins, overrides are already there.\<close>

fun observe :: "schema_state \<Rightarrow> attrs \<Rightarrow> string list \<Rightarrow> schema_state" where
  "observe se [] exclude = se"
| "observe se ((key, v) # rest) exclude =
     observe
       (if key \<in> set exclude \<or> map_of (schema se) key \<noteq> None then se
        else (case value_kind v of
                None \<Rightarrow> se
              | Some t \<Rightarrow> se\<lparr>schema := schema se @ [(key, t)]\<rparr>))
       rest exclude"

text \<open>Modelled from the spec: the place of a name in an ordered list of names: the
  index of a column in the schema (section 4.2), the number of an enumeration member.\<close>

fun column_index :: "string list \<Rightarrow> string \<Rightarrow> nat option" where
  "column_index [] key = None"
| "column_index (k # ks) key =
     (if k = key then Some 0 else map_option Suc (column_index ks key))"

text \<open>Modelled from the spec: \<^verbatim>\<open>AttributeSchemaEncoder.encode_values\<close>, the \<open>encode\<close> of
  section 4.2, walking the record's own keys: the column index with the value, the
  index alone for a null when nulls are written, and an error for a key that is not in
  the schema. The bytes of an entry are not given by the spec, so an entry is kept as
  the pair itself.\<close>

fun encode_entries ::
  "schema_state \<Rightarrow> attrs \<Rightarrow> string list \<Rightarrow> error + (nat \<times> json option) list" where
  "encode_entries se [] exclude = Inr []"
| "encode_entries se ((key, v) # rest) exclude =
     (if key \<in> set exclude then encode_entries se rest exclude
      else (case column_index (map fst (schema se)) key of
              None \<Rightarrow> Inl (KeyError key)
            | Some i \<Rightarrow>
                (case encode_entries se rest exclude of
                   Inl e \<Rightarrow> Inl e
                 | Inr entries \<Rightarrow>
                     Inr (if v \<noteq> JNull then (i, Some v) # entries
                          else if write_nulls se then (i, None) # entries
                          else entries))))"

text \<open>Modelled from the spec: a \<^verbatim>\<open>GeometryEncoder\<close> before encoding, all arrays empty.\<close>

definition empty_encoder :: geometry_encoder where
  "empty_encoder =
     \<lparr>gd_solids = [], gd_shells = [], gd_surfaces = [], gd_strings = [], gd_indices = [],
      gd_semantic_values = []\<rparr>"

text \<open>Modelled from the spec: the run-length array of a nesting level (section 4.3):
  1 the rings, 2 the surfaces, 3 the shells, 4 the solids.\<close>

definition push_count :: "nat \<Rightarrow> int \<Rightarrow> geometry_encoder \<Rightarrow> geometry_encoder" where
  "push_count level n gd =
     (if level = 1 then gd\<lparr>gd_strings := gd_strings gd @ [n]\<rparr>
      else if level = 2 then gd\<lparr>gd_surfaces := gd_surfaces gd @ [n]\<rparr>
      else if level = 3 then gd\<lparr>gd_shells := gd_shells gd @ [n]\<rparr>
      else gd\<lparr>gd_solids := gd_solids gd @ [n]\<rparr>)"

text \<open>Modelled from the spec: the recursive descent of section 4.3. At level 0 a
  vertex index is appended to the flat array; one level up, the children are
  descended and their number is appended to that level's run-length array.\<close>

primrec descend :: "nat \<Rightarrow> json \<Rightarrow> geometry_encoder \<Rightarrow> error + geometry_encoder" where
  "descend 0 =
     (\<lambda>j gd. case j of
        JInt i \<Rightarrow> Inr (gd\<lparr>gd_indices := gd_indices gd @ [i]\<rparr>)
      | _ \<Rightarrow> Inl TypeError)"
| "descend (Suc level) =
     (\<lambda>j gd. case j of
        JArr xs \<Rightarrow>
          (case for_fold (\<lambda>g x. descend level x g) xs gd of
             Inl e \<Rightarrow> Inl e
           | Inr gd' \<Rightarrow> Inr (push_count (Suc level) (int (length xs)) gd'))
      | _ \<Rightarrow> Inl TypeError)"

text \<open>Modelled from the spec: the nesting depth of a boundary array, which section 4.3
  ties to the geometry type (1 for points, 2 for line strings, 3 for surfaces, 4 for a
  solid, 5 for several solids).\<close>

fun nesting :: "json \<Rightarrow> nat" where
  "nesting (JArr (x # xs)) = Suc (nesting x)"
| "nesting (JArr []) = 1"
| "nesting j = 0"

text \<open>Modelled from the spec: \<^verbatim>\<open>GeometryEncoder.encode\<close> (\<^verbatim>\<open>geometry.py\<close>). The method is
  given the boundaries only, so the depth of the descent is the nesting of the array;
  the outermost array is the geometry itself and has no run-length entry.\<close>

definition encode_boundaries :: "json \<Rightarrow> error + geometry_encoder" where
  "encode_boundaries boundaries =
     (case boundaries of
        JArr xs \<Rightarrow> for_fold (\<lambda>g x. descend (nesting boundaries - 1) x g) xs empty_encoder
      | _ \<Rightarrow> Inl TypeError)"

text \<open>Modelled from the spec: a value-index array is nested arrays of integers and
  nulls; its entries in order.\<close>

fun index_tree :: "json \<Rightarrow> bool" where
  "index_tree JNull = True"
| "index_tree (JInt i) = True"
| "index_tree (JArr xs) = list_all index_tree xs"
| "index_tree j = False"

fun index_leaves :: "json \<Rightarrow> int option list" where
  "index_leaves (JInt i) = [Some i]"
| "index_leaves (JArr xs) = concat (map index_leaves xs)"
| "index_leaves j = [None]"

text \<open>Modelled from the spec: \<^verbatim>\<open>GeometryEncoder.encode_semantics\<close>: the value-index
  array passed through, one entry per surface whatever the nesting (sections 3 and
  4.4), a null standing for no semantic object.\<close>

definition encode_semantic_values :: "geometry_encoder \<Rightarrow> json \<Rightarrow> error + geometry_encoder" where
  "encode_semantic_values gd vals =
     (if index_tree vals then Inr (gd\<lparr>gd_semantic_values := index_leaves vals\<rparr>)
      else Inl TypeError)"

text \<open>Modelled from the spec: the closed enumerations of the generated package
  \<^verbatim>\<open>CityBuf_\<close>. The spec gives neither their members nor their numbers: the names are
  CityJSON's, the number of a name is its place in the list.\<close>

definition semantic_surface_types :: "string list" where
  "semantic_surface_types =
     [''RoofSurface'', ''GroundSurface'', ''WallSurface'', ''ClosureSurface'',
      ''OuterCeilingSurface'', ''OuterFloorSurface'', ''Window'', ''Door'']"

definition city_object_types :: "string list" where
  "city_object_types = [''Bridge'', ''Building'', ''BuildingPart'', ''TINRelief'']"

definition geometry_types :: "string list" where
  "geometry_types =
     [''MultiPoint'', ''MultiLineString'', ''MultiSurface'', ''CompositeSurface'', ''Solid'',
      ''MultiSolid'', ''CompositeSolid'']"

text \<open>Modelled from the spec: the collaborators together, in a run of the script (the
  counters are bound) under an interpreter with the default limit on the digits of an
  integer. Scalars are taken to be signed 32-bit fields. The serialisation of a
  finished table is the builder's and is not specified: a table is written here as the
  8 bytes of its feature count, or the bytes of its identifier, which is enough to tell
  frames apart.\<close>

definition spec_collaborators ::
  "(schema_state, (nat \<times> json option) list, py_type) collaborators" where
  "spec_collaborators =
     \<lparr>se_new = (\<lambda>pretyped_attributes nulls.
                  \<lparr>schema = pretyped_attributes, write_nulls = nulls\<rparr>),
      se_add = (\<lambda>se attributes exclude. Inr (observe se attributes exclude)),
      se_encode_values = encode_entries,
      se_schema = (\<lambda>se. map fst (schema se)),
      se_get_cb_column_type = (\<lambda>se key. dict_get (schema se) key),
      ge_encode = encode_boundaries,
      ge_encode_semantics = encode_semantic_values,
      SemanticSurfaceType = column_index semantic_surface_types,
      CityObjectType = column_index city_object_types,
      GeometryType = column_index geometry_types,
      scalar_ok = (\<lambda>adder n. - (2 ^ 31) \<le> n \<and> n < 2 ^ 31),
      feature_output = (\<lambda>f. map of_char (ft_id f)),
      header_output = (\<lambda>h. le_bytes 8 (ht_features_count h)),
      counters_defined = True,
      int_max_str_digits = 4300\<rparr>"

section \<open>Example inputs\<close>

text \<open>The dataset of the end-to-end scenario of the design document: a metadata line
  with a transform only, and one feature with a solid of one shell and four triangles
  and the attribute \<^verbatim>\<open>name\<close>. Variants of it follow.\<close>

definition triangle :: "int \<Rightarrow> int \<Rightarrow> int \<Rightarrow> json" where
  "triangle a b c = JArr [JArr [JInt a, JInt b, JInt c]]"

definition tetrahedron :: json where
  "tetrahedron = JArr [JArr [triangle 0 1 2, triangle 0 1 3, triangle 1 2 3, triangle 0 2 3]]"

definition solid :: "cj_semantics option \<Rightarrow> cj_geometry" where
  "solid semantics =
     \<lparr>geom_type = ''Solid'', geom_lod = ''2.2'', geom_boundaries = tetrahedron,
      geom_semantics = semantics\<rparr>"

definition roof_and_wall :: "attrs list" where
  "roof_and_wall =
     [[(''type'', JStr ''RoofSurface'')],
      [(''type'', JStr ''WallSurface''), (''material'', JStr ''brick'')]]"

definition roofed_solid :: cj_geometry where
  "roofed_solid =
     solid (Some \<lparr>sem_surfaces = Some roof_and_wall,
                  sem_values = Some (JArr [JArr [JInt 0, JInt 1, JNull, JInt 1]])\<rparr>)"

definition building :: "cj_geometry list option \<Rightarrow> f64 list option \<Rightarrow> cj_object" where
  "building geoms box =
     \<lparr>obj_type = ''Building'', obj_attributes = Some [(''name'', JStr ''A'')],
      obj_geometry = geoms, obj_parents = None, obj_children = None,
      obj_geographicalExtent = box\<rparr>"

definition feature :: "string \<Rightarrow> cj_object \<Rightarrow> cj_feature" where
  "feature name cj_object =
     \<lparr>feat_id = name,
      feat_vertices = [[0, 0, 0], [100, 0, 0], [0, 100, 0], [0, 0, 100]],
      feat_CityObjects = [(name, cj_object)]\<rparr>"

definition transform_only :: cj_metadata where
  "transform_only =
     \<lparr>meta_transform =
        Some \<lparr>tr_scale = Some [Finite 0.01, Finite 0.01, Finite 0.01],
              tr_translate = Some [Finite 0, Finite 0, Finite 0]\<rparr>,
      meta_metadata = None\<rparr>"

definition with_metadata :: "cj_metadata_member \<Rightarrow> cj_metadata" where
  "with_metadata md = transform_only\<lparr>meta_metadata := Some md\<rparr>"

definition name_material :: schema_state where
  "name_material = \<lparr>schema = [(''name'', PyStr), (''material'', PyStr)], write_nulls = True\<rparr>"

definition zeros :: extent where
  "zeros = ((Finite 0, Finite 0, Finite 0), (Finite 0, Finite 0, Finite 0))"

text \<open>A solid whose semantics block has surfaces and no values.\<close>

definition unvalued_solid :: cj_geometry where
  "unvalued_solid = solid (Some \<lparr>sem_surfaces = Some roof_and_wall, sem_values = None\<rparr>)"

text \<open>The table the converter builds for \<open>roofed_solid\<close>.\<close>

definition roofed_table :: "(nat \<times> json option) list geometry_table" where
  "roofed_table =
     \<lparr>gt_type = 4, gt_lod = ''2.2'', gt_solids = None, gt_shells = Some [4],
      gt_surfaces = Some [1, 1, 1, 1], gt_strings = Some [3, 3, 3, 3],
      gt_boundaries = [0, 1, 2, 0, 1, 3, 1, 2, 3, 0, 2, 3],
      gt_semantics_objects =
        Some [\<lparr>so_type = 0, so_attributes = []\<rparr>,
              \<lparr>so_type = 2, so_attributes = [(1, Some (JStr ''brick''))]\<rparr>],
      gt_semantics = Some [0, 1, 4294967295, 1],
      gt_written_semantics_objects =
        Some [\<lparr>so_type = 0, so_attributes = []\<rparr>,
              \<lparr>so_type = 2, so_attributes = [(1, Some (JStr ''brick''))]\<rparr>],
      gt_written_semantics = Some [0, 1, 4294967295, 1]\<rparr>"

text \<open>Solids whose semantics block has an empty values array: with the two surfaces,
  and with one surface that has no \<^verbatim>\<open>type\<close>; and the table of the solid without
  semantics.\<close>

definition unindexed_solid :: cj_geometry where
  "unindexed_solid =
     solid (Some \<lparr>sem_surfaces = Some roof_and_wall, sem_values = Some (JArr [])\<rparr>)"

definition untyped_solid :: cj_geometry where
  "untyped_solid = solid (Some \<lparr>sem_surfaces = Some [[]], sem_values = Some (JArr [])\<rparr>)"

definition plain_table :: "(nat \<times> json option) list geometry_table" where
  "plain_table =
     \<lparr>gt_type = 4, gt_lod = ''2.2'', gt_solids = None, gt_shells = Some [4],
      gt_surfaces = Some [1, 1, 1, 1], gt_strings = Some [3, 3, 3, 3],
      gt_boundaries = [0, 1, 2, 0, 1, 3, 1, 2, 3, 0, 2, 3],
      gt_semantics_objects = None, gt_semantics = None,
      gt_written_semantics_objects = None, gt_written_semantics = None\<rparr>"

text \<open>Two features: a building with the plain solid, and one without geometry.\<close>

definition two_buildings :: "cj_feature list" where
  "two_buildings =
     [feature ''b1'' (building (Some [solid None]) None), feature ''b2'' (building None None)]"

text \<open>Metadata with a reference system, as the Dutch datasets carry it.\<close>

definition rd_new :: cj_metadata where
  "rd_new =
     with_metadata \<lparr>md_geographicalExtent = None,
                    md_referenceSystem = Some ''https://www.opengis.net/def/crs/EPSG/0/7415''\<rparr>"

text \<open>Semantic surfaces with the \<^verbatim>\<open>children\<close> and \<^verbatim>\<open>parent\<close> members CityJSON gives them;
  contents of an uninitialised array; two objects with bounding boxes; the schema the
  first pass infers from the attribute \<^verbatim>\<open>name\<close>.\<close>

definition nested_roofs :: "attrs list" where
  "nested_roofs =
     [[(''type'', JStr ''RoofSurface''), (''children'', JArr [JInt 1])],
      [(''type'', JStr ''RoofSurface''), (''parent'', JInt 0)]]"

definition nested_solid :: cj_geometry where
  "nested_solid =
     solid (Some \<lparr>sem_surfaces = Some nested_roofs,
                  sem_values = Some (JArr [JArr [JInt 0, JInt 1, JInt 1, JInt 1]])\<rparr>)"

definition garbage :: extent where
  "garbage = ((Finite (- 7), Finite (- 7), Finite (- 7)), (Finite 99, Finite 99, Finite 99))"

definition two_boxes :: "cj_feature list" where
  "two_boxes =
     [feature ''b1'' (building None (Some (map Finite [0, 0, 0, 10, 10, 10]))),
      feature ''b2'' (building None (Some (map Finite [5, 5, 5, 20, 20, 20])))]"

definition name_only :: schema_state where
  "name_only = \<lparr>schema = [(''name'', PyStr)], write_nulls = True\<rparr>"

section \<open>Loops and vectors\<close>

text \<open>The equations that run the converter on a concrete input.\<close>

lemmas model_defs =
  create_geometry_def semantics_block_def create_semantic_object_def run_geometry_encoder_def
  build_vectors_def geometry_end_def uint32_vector_def level_vector_def semantics_vector_def
  prepend_semantic_def PrependUint32_def offset_vector_def string_vector_def add_if_def
  read_local_def add_enum_def get_attribute_by_name_def dict_get_def add_to_counter_def
  create_object_def object_attributes_def object_geometry_def extent_of_list_def
  create_feature_def create_feature_table_def create_vertex_def
  create_header_def create_header_table_def header_crs_def header_column_def
  reference_system_def int_field_def last3_def py_int_def strip_def int_body_def
  is_digit_def is_space_def digit_value_def too_many_digits_def
  seed_extent_def fold_extent_def scan_geometry_def scan_object_def scan_feature_def
  scan_features_def write_container_def convert_cjseq2cb_def create_magic_bytes_def
  encode_ascii_def to_bytes_def minimum1_def maximum1_def

lemmas instance_defs =
  spec_collaborators_def encode_boundaries_def encode_semantic_values_def push_count_def
  empty_encoder_def semantic_surface_types_def city_object_types_def geometry_types_def

lemmas example_defs =
  triangle_def tetrahedron_def solid_def roof_and_wall_def building_def feature_def
  transform_only_def with_metadata_def name_material_def zeros_def

lemma offset_vector_id: "offset_vector xs = xs"
proof -
  have "fold (\<lambda>offset vec. offset # vec) ys acc = rev ys @ acc" for ys acc :: "'a list"
    by (induction ys arbitrary: acc) auto
  then show ?thesis by (simp add: offset_vector_def)
qed

lemma string_vector_id: "string_vector xs = xs"
proof -
  have "fold (\<lambda>name vec. name # vec) ys acc = rev ys @ acc" for ys acc :: "string list"
    by (induction ys arbitrary: acc) auto
  then show ?thesis by (simp add: string_vector_def)
qed

lemma for_append_Inr:
  "for_append f xs = Inr ys \<Longrightarrow> list_all2 (\<lambda>x y. f x = Inr y) xs ys"
  by (induction xs arbitrary: ys) (auto split: sum.splits)

lemma for_append_Inr_iff:
  "for_append f xs = Inr ys \<longleftrightarrow> list_all2 (\<lambda>x y. f x = Inr y) xs ys"
proof
  show "list_all2 (\<lambda>x y. f x = Inr y) xs ys \<Longrightarrow> for_append f xs = Inr ys"
    by (induction xs ys rule: list_all2_induct) auto
qed (rule for_append_Inr)

lemma for_append_fails:
  "x \<in> set xs \<Longrightarrow> isl (f x) \<Longrightarrow> isl (for_append f xs)"
  by (induction xs) (auto split: sum.splits)

lemma for_fold_fails:
  "x \<in> set xs \<Longrightarrow> \<forall>s. isl (f s x) \<Longrightarrow> isl (for_fold f xs s)"
proof (induction xs arbitrary: s)
  case Nil
  then show ?case by simp
next
  case (Cons y ys)
  show ?case
  proof (cases "f s y")
    case (Inl e)
    then show ?thesis by simp
  next
    case (Inr s')
    have "x \<noteq> y"
    proof
      assume "x = y"
      with Cons.prems(2) have "isl (f s y)" by blast
      with Inr show False by simp
    qed
    with Cons.prems have "x \<in> set ys" by simp
    with Cons.IH Cons.prems(2) Inr show ?thesis by simp
  qed
qed

lemma for_fold_invariant:
  assumes "for_fold f xs s = Inr s'" and "P s"
    and "\<And>s x s'. P s \<Longrightarrow> f s x = Inr s' \<Longrightarrow> P s'"
  shows "P s'"
  using assms(1,2)
proof (induction xs arbitrary: s)
  case Nil
  then show ?case by simp
next
  case (Cons x xs)
  then obtain s1 where 1: "f s x = Inr s1" and 2: "for_fold f xs s1 = Inr s'"
    by (auto split: sum.splits)
  from assms(3) [OF Cons.prems(2) 1] have "P s1" .
  from Cons.IH [OF 2 this] show ?case .
qed

lemma for_fold_prepend:
  "for_fold PrependUint32 xs acc = Inr vec \<longleftrightarrow>
     (list_all (\<lambda>x. 0 \<le> x \<and> x < 2 ^ 32) xs \<and> vec = rev (map word_of_int xs) @ acc)"
  by (induction xs arbitrary: acc) (auto simp: PrependUint32_def split: sum.splits)

lemma uint32_vector_Inr:
  "uint32_vector xs = Inr vec \<longleftrightarrow>
     (list_all (\<lambda>x. 0 \<le> x \<and> x < 2 ^ 32) xs \<and> vec = map word_of_int xs)"
  by (auto simp: uint32_vector_def for_fold_prepend rev_map)

lemma level_vector_Inr:
  "level_vector xs = Inr v \<longleftrightarrow>
     (list_all (\<lambda>x. 0 \<le> x \<and> x < 2 ^ 32) xs \<and>
      v = (if xs = [] then None else Some (map word_of_int xs)))"
proof (cases "uint32_vector xs")
  case (Inl e)
  then have "\<not> list_all (\<lambda>x. 0 \<le> x \<and> x < 2 ^ 32) xs"
    using uint32_vector_Inr [of xs "map word_of_int xs"] by auto
  with Inl show ?thesis
    by (cases xs) (auto simp: level_vector_def)
next
  case (Inr vec)
  then show ?thesis
    using uint32_vector_Inr [of xs vec] by (auto simp: level_vector_def)
qed

text \<open>The integer that the loop of lines 130 to 134 hands to the builder.\<close>

lemma for_fold_prepend_semantic:
  "for_fold prepend_semantic sems acc = Inr vec \<longleftrightarrow>
     (list_all (\<lambda>sem. case sem of None \<Rightarrow> True | Some v \<Rightarrow> 0 \<le> v \<and> v < 2 ^ 32) sems \<and>
      vec = rev (map (\<lambda>sem. case sem of None \<Rightarrow> 4294967295 | Some v \<Rightarrow> word_of_int v) sems)
              @ acc)"
  by (induction sems arbitrary: acc)
     (auto simp: prepend_semantic_def PrependUint32_def split: sum.splits option.splits)

lemma semantics_vector_Inr:
  assumes "semantics_vector sems = Inr (Some vec)"
  shows "length vec = length sems"
    and "i < length sems \<Longrightarrow>
           (case sems ! i of None \<Rightarrow> unat (vec ! i) = 2 ^ 32 - 1 | Some v \<Rightarrow> uint (vec ! i) = v)"
proof -
  from assms have ff: "for_fold prepend_semantic (rev sems) [] = Inr vec"
    by (auto simp: semantics_vector_def split: if_splits sum.splits)
  then have ok: "list_all (\<lambda>sem. case sem of None \<Rightarrow> True | Some v \<Rightarrow> 0 \<le> v \<and> v < 2 ^ 32) sems"
    and vec: "vec = map (\<lambda>sem. case sem of None \<Rightarrow> 4294967295 | Some v \<Rightarrow> word_of_int v) sems"
    by (auto simp: for_fold_prepend_semantic rev_map list_all_iff)
  show "length vec = length sems" by (simp add: vec)
  assume i: "i < length sems"
  show "case sems ! i of None \<Rightarrow> unat (vec ! i) = 2 ^ 32 - 1 | Some v \<Rightarrow> uint (vec ! i) = v"
  proof (cases "sems ! i")
    case None
    then show ?thesis using i by (simp add: vec)
  next
    case (Some v)
    from ok i have "case sems ! i of None \<Rightarrow> True | Some v \<Rightarrow> 0 \<le> v \<and> v < 2 ^ 32"
      by (simp add: list_all_length)
    with Some have "0 \<le> v" "v < 2 ^ 32" by simp_all
    then have "uint (word_of_int v :: uint32) = v"
      by (simp add: uint_word_of_int take_bit_int_eq_self)
    with Some i show ?thesis by (simp add: vec)
  qed
qed

lemma add_if_Inr:
  "add_if cond name v = Inr r \<longleftrightarrow> (if cond then v \<noteq> None \<and> r = v else r = None)"
  by (cases v) (auto simp: add_if_def read_local_def)

section \<open>The geometry table\<close>

lemma create_geometry_Inr:
  assumes "create_geometry c schema_encoder geom = Inr g"
  shows "\<exists>semantic_values f_semantics_objects gd vs.
     semantics_block c schema_encoder geom = Inr (semantic_values, f_semantics_objects) \<and>
     run_geometry_encoder c (geom_boundaries geom) semantic_values = Inr gd \<and>
     build_vectors c gd = Inr vs \<and>
     geometry_end c geom gd vs semantic_values f_semantics_objects = Inr g"
  using assms by (auto simp: create_geometry_def split: sum.splits prod.splits)

lemma build_vectors_Inr:
  assumes "build_vectors c gd = Inr vs"
  shows "f_solids_offset vs = (if gd_solids gd = [] then None else Some (map word_of_int (gd_solids gd)))"
    and "f_shells_offset vs = (if gd_shells gd = [] then None else Some (map word_of_int (gd_shells gd)))"
    and "f_surfaces_offset vs = (if gd_surfaces gd = [] then None else Some (map word_of_int (gd_surfaces gd)))"
    and "f_rings_offset vs = (if gd_strings gd = [] then None else Some (map word_of_int (gd_strings gd)))"
    and "f_boundaries_offset vs = map word_of_int (gd_indices gd)"
    and "semantics_vector (gd_semantic_values gd) = Inr (f_semantics vs)"
  using assms
  by (auto simp: build_vectors_def level_vector_Inr uint32_vector_Inr add_to_counter_def
        split: sum.splits if_splits)

lemma geometry_end_Inr:
  assumes "geometry_end c geom gd vs semantic_values f_semantics_objects = Inr g"
  shows "gt_solids g = (if gd_solids gd = [] then None else f_solids_offset vs)"
    and "gt_shells g = (if gd_shells gd = [] then None else f_shells_offset vs)"
    and "gt_surfaces g = (if gd_surfaces gd = [] then None else f_surfaces_offset vs)"
    and "gt_strings g = (if gd_strings gd = [] then None else f_rings_offset vs)"
    and "gt_boundaries g = f_boundaries_offset vs"
    and "gt_semantics g = (if truthy semantic_values then f_semantics vs else None)"
    and "gt_semantics_objects g = (if truthy semantic_values then f_semantics_objects else None)"
    and "truthy semantic_values \<Longrightarrow> f_semantics vs \<noteq> None \<and> f_semantics_objects \<noteq> None"
    and "gt_written_semantics_objects g = f_semantics_objects"
    and "gt_written_semantics g = f_semantics vs"
  using assms
  by (auto simp: geometry_end_def add_if_Inr split: sum.splits if_splits)

lemma create_roofed_solid:
  "create_geometry spec_collaborators (Some name_material) roofed_solid = Inr roofed_table"
  by (simp add: model_defs instance_defs example_defs roofed_solid_def roofed_table_def)

text \<open>
  Claim C4. Whenever a geometry is serialised, each of the four run-length arrays
  (solids, shells, surfaces, rings) is a field of the geometry table exactly when the
  encoder's array for that level is not empty, and then it holds that array; a level
  the encoder left empty is absent, and no present array has length zero.
\<close>

theorem level_arrays_present_iff_nonempty:
  assumes "create_geometry c schema_encoder geom = Inr g"
  shows "\<exists>semantic_values f_semantics_objects gd.
     semantics_block c schema_encoder geom = Inr (semantic_values, f_semantics_objects) \<and>
     run_geometry_encoder c (geom_boundaries geom) semantic_values = Inr gd \<and>
     gt_solids g = (if gd_solids gd = [] then None else Some (map word_of_int (gd_solids gd))) \<and>
     gt_shells g = (if gd_shells gd = [] then None else Some (map word_of_int (gd_shells gd))) \<and>
     gt_surfaces g = (if gd_surfaces gd = [] then None else Some (map word_of_int (gd_surfaces gd))) \<and>
     gt_strings g = (if gd_strings gd = [] then None else Some (map word_of_int (gd_strings gd))) \<and>
     gt_solids g \<noteq> Some [] \<and> gt_shells g \<noteq> Some [] \<and> gt_surfaces g \<noteq> Some [] \<and>
     gt_strings g \<noteq> Some []"
proof -
  from create_geometry_Inr [OF assms] obtain semantic_values f_semantics_objects gd vs where
    sb: "semantics_block c schema_encoder geom = Inr (semantic_values, f_semantics_objects)" and
    rg: "run_geometry_encoder c (geom_boundaries geom) semantic_values = Inr gd" and
    bv: "build_vectors c gd = Inr vs" and
    ge: "geometry_end c geom gd vs semantic_values f_semantics_objects = Inr g"
    by blast
  have "gt_solids g = (if gd_solids gd = [] then None else Some (map word_of_int (gd_solids gd)))"
    using geometry_end_Inr(1) [OF ge] build_vectors_Inr(1) [OF bv] by simp
  moreover
  have "gt_shells g = (if gd_shells gd = [] then None else Some (map word_of_int (gd_shells gd)))"
    using geometry_end_Inr(2) [OF ge] build_vectors_Inr(2) [OF bv] by simp
  moreover
  have "gt_surfaces g = (if gd_surfaces gd = [] then None else Some (map word_of_int (gd_surfaces gd)))"
    using geometry_end_Inr(3) [OF ge] build_vectors_Inr(3) [OF bv] by simp
  moreover
  have "gt_strings g = (if gd_strings gd = [] then None else Some (map word_of_int (gd_strings gd)))"
    using geometry_end_Inr(4) [OF ge] build_vectors_Inr(4) [OF bv] by simp
  ultimately show ?thesis using sb rg by (intro exI conjI) (assumption | simp)+
qed

theorem level_arrays_present_iff_nonempty_witness:
  "create_geometry spec_collaborators (Some name_material) roofed_solid = Inr roofed_table \<and>
   (\<exists>semantic_values f_semantics_objects gd.
      semantics_block spec_collaborators (Some name_material) roofed_solid =
        Inr (semantic_values, f_semantics_objects) \<and>
      run_geometry_encoder spec_collaborators (geom_boundaries roofed_solid) semantic_values =
        Inr gd \<and>
      gt_solids roofed_table =
        (if gd_solids gd = [] then None else Some (map word_of_int (gd_solids gd))) \<and>
      gt_shells roofed_table =
        (if gd_shells gd = [] then None else Some (map word_of_int (gd_shells gd))) \<and>
      gt_surfaces roofed_table =
        (if gd_surfaces gd = [] then None else Some (map word_of_int (gd_surfaces gd))) \<and>
      gt_strings roofed_table =
        (if gd_strings gd = [] then None else Some (map word_of_int (gd_strings gd))) \<and>
      gt_solids roofed_table \<noteq> Some [] \<and> gt_shells roofed_table \<noteq> Some [] \<and>
      gt_surfaces roofed_table \<noteq> Some [] \<and> gt_strings roofed_table \<noteq> Some [])"
  using create_roofed_solid level_arrays_present_iff_nonempty [OF create_roofed_solid]
  by (rule conjI)

text \<open>
  Claim C6. Whenever a geometry is serialised with a semantics array, the array has one
  entry per entry of the encoder's semantic values: the entry of a \<^verbatim>\<open>None\<close> is the
  largest unsigned 32-bit value, \<open>2 ^ 32 - 1\<close>, and the entry of an integer is that
  integer as an unsigned 32-bit value.
\<close>

theorem semantic_index_sentinel:
  assumes "create_geometry c schema_encoder geom = Inr g"
    and "gt_semantics g = Some vec"
  shows "\<exists>semantics vals gd.
     geom_semantics geom = Some semantics \<and> sem_values semantics = Some vals \<and>
     run_geometry_encoder c (geom_boundaries geom) vals = Inr gd \<and>
     length vec = length (gd_semantic_values gd) \<and>
     (\<forall>i < length vec.
        case gd_semantic_values gd ! i of
          None \<Rightarrow> unat (vec ! i) = 2 ^ 32 - 1
        | Some v \<Rightarrow> uint (vec ! i) = v)"
proof -
  from create_geometry_Inr [OF assms(1)] obtain semantic_values f_semantics_objects gd vs where
    sb: "semantics_block c schema_encoder geom = Inr (semantic_values, f_semantics_objects)" and
    rg: "run_geometry_encoder c (geom_boundaries geom) semantic_values = Inr gd" and
    bv: "build_vectors c gd = Inr vs" and
    ge: "geometry_end c geom gd vs semantic_values f_semantics_objects = Inr g"
    by blast
  from geometry_end_Inr(6) [OF ge] assms(2) have tr: "truthy semantic_values"
    and fs: "f_semantics vs = Some vec"
    by (auto split: if_splits)
  from sb tr obtain semantics where
    sem: "geom_semantics geom = Some semantics" "sem_values semantics = Some semantic_values"
    by (auto simp: semantics_block_def split: option.splits sum.splits)
  from build_vectors_Inr(6) [OF bv] fs
  have sv: "semantics_vector (gd_semantic_values gd) = Inr (Some vec)" by simp
  show ?thesis
    using sem rg semantics_vector_Inr [OF sv] by auto
qed

theorem semantic_index_sentinel_witness:
  "gt_semantics roofed_table = Some [0, 1, 4294967295, 1] \<and>
   (\<exists>semantics vals gd.
      geom_semantics roofed_solid = Some semantics \<and> sem_values semantics = Some vals \<and>
      run_geometry_encoder spec_collaborators (geom_boundaries roofed_solid) vals = Inr gd \<and>
      length [0, 1, 4294967295, 1 :: uint32] = length (gd_semantic_values gd) \<and>
      (\<forall>i < length [0, 1, 4294967295, 1 :: uint32].
         case gd_semantic_values gd ! i of
           None \<Rightarrow> unat ([0, 1, 4294967295, 1 :: uint32] ! i) = 2 ^ 32 - 1
         | Some v \<Rightarrow> uint ([0, 1, 4294967295, 1 :: uint32] ! i) = v))"
proof -
  have s: "gt_semantics roofed_table = Some [0, 1, 4294967295, 1]"
    by (simp add: roofed_table_def)
  from s semantic_index_sentinel [OF create_roofed_solid s] show ?thesis
    by (rule conjI)
qed

section \<open>Failures that abort the run\<close>

lemma create_geometry_semantics_exception:
  assumes "geom_semantics geom = Some semantics"
    and "sem_surfaces semantics = None \<or> sem_values semantics = None"
  shows "create_geometry c schema_encoder geom =
           Inl (PyException ''Semantics must have surfaces and values'')"
  using assms by (auto simp: create_geometry_def semantics_block_def split: option.splits)

lemma create_object_geometry_fails:
  assumes "obj_geometry cj_object = Some geoms" and "geom \<in> set geoms"
    and "isl (object_geometry c schema_encoder geom)"
  shows "isl (create_object c cj_id cj_object schema_encoder)"
proof -
  from assms(2,3) have "isl (for_append (object_geometry c schema_encoder) geoms)"
    by (rule for_append_fails)
  then obtain e where "for_append (object_geometry c schema_encoder) geoms = Inl e"
    by (cases "for_append (object_geometry c schema_encoder) geoms") auto
  with assms(1) show ?thesis
    by (simp add: create_object_def Let_def split: sum.splits)
qed

lemma create_feature_object_fails:
  assumes "(cj_id, cj_object) \<in> set (feat_CityObjects cj_feature)"
    and "isl (create_object c cj_id cj_object schema_encoder)"
  shows "isl (create_feature c cj_feature schema_encoder)"
proof -
  have "isl (for_append (\<lambda>(cj_id, cj_object). create_object c cj_id cj_object schema_encoder)
               (feat_CityObjects cj_feature))"
    using assms by (intro for_append_fails [of "(cj_id, cj_object)"]) auto
  then obtain e where
    "for_append (\<lambda>(cj_id, cj_object). create_object c cj_id cj_object schema_encoder)
       (feat_CityObjects cj_feature) = Inl e"
    by (cases "for_append (\<lambda>(cj_id, cj_object). create_object c cj_id cj_object schema_encoder)
       (feat_CityObjects cj_feature)") auto
  then show ?thesis
    by (simp add: create_feature_def create_feature_table_def Let_def split: sum.splits)
qed

lemma convert_feature_fails:
  assumes "cj_feature \<in> set cj_features"
    and "\<forall>se. isl (create_feature c cj_feature (Some se))"
  shows "run_file (convert_cjseq2cb c u m cj_features p w) = None \<and>
         run_error (convert_cjseq2cb c u m cj_features p w) \<noteq> None"
proof (cases "scan_features c u m cj_features (se_new c p w)")
  case (Inl e)
  then show ?thesis by (simp add: convert_cjseq2cb_def)
next
  case (Inr r)
  obtain global_extent se where r: "r = (global_extent, se)" by (cases r)
  from assms have "isl (for_append (\<lambda>cj_feature. create_feature c cj_feature (Some se)) cj_features)"
    by (intro for_append_fails [of cj_feature]) auto
  then obtain e where
    "for_append (\<lambda>cj_feature. create_feature c cj_feature (Some se)) cj_features = Inl e"
    by (cases "for_append (\<lambda>cj_feature. create_feature c cj_feature (Some se)) cj_features") auto
  with Inr r show ?thesis by (simp add: convert_cjseq2cb_def)
qed

text \<open>
  Claim C5. When a geometry declares a semantics block that lacks the surfaces list or
  the values array, \<^verbatim>\<open>create_geometry\<close> raises the exception "Semantics must have
  surfaces and values", and a run over any dataset that holds such a geometry ends with
  an uncaught exception before the output file is opened.
\<close>

theorem semantics_without_both_members_aborts:
  assumes "cj_feature \<in> set cj_features"
    and "(cj_id, cj_object) \<in> set (feat_CityObjects cj_feature)"
    and "obj_geometry cj_object = Some geoms"
    and "geom \<in> set geoms"
    and "geom_semantics geom = Some semantics"
    and "sem_surfaces semantics = None \<or> sem_values semantics = None"
  shows "create_geometry c schema_encoder geom =
           Inl (PyException ''Semantics must have surfaces and values'') \<and>
         run_error (convert_cjseq2cb c uninitialised cj_metadata cj_features
                      pretyped_attributes nulls) \<noteq> None \<and>
         run_file (convert_cjseq2cb c uninitialised cj_metadata cj_features
                     pretyped_attributes nulls) = None"
proof -
  have g: "create_geometry c se geom =
             Inl (PyException ''Semantics must have surfaces and values'')" for se
    using assms(5,6) by (rule create_geometry_semantics_exception)
  then have "isl (object_geometry c se geom)" for se
    by (simp add: object_geometry_def)
  then have "isl (create_object c cj_id cj_object se)" for se
    using assms(3,4) by (intro create_object_geometry_fails)
  then have "\<forall>se. isl (create_feature c cj_feature (Some se))"
    using assms(2) by (intro allI create_feature_object_fails)
  from convert_feature_fails [OF assms(1) this] g show ?thesis by simp
qed

theorem semantics_without_both_members_aborts_witness:
  "create_geometry spec_collaborators (Some name_material) unvalued_solid =
     Inl (PyException ''Semantics must have surfaces and values'') \<and>
   run_error
     (convert_cjseq2cb spec_collaborators zeros transform_only
        [feature ''b1'' (building (Some [unvalued_solid]) None)] [] True) \<noteq> None \<and>
   run_file
     (convert_cjseq2cb spec_collaborators zeros transform_only
        [feature ''b1'' (building (Some [unvalued_solid]) None)] [] True) = None"
  by (rule semantics_without_both_members_aborts
        [where cj_id = "''b1''"
           and cj_feature = "feature ''b1'' (building (Some [unvalued_solid]) None)"
           and cj_object = "building (Some [unvalued_solid]) None"
           and semantics = "\<lparr>sem_surfaces = Some roof_and_wall, sem_values = None\<rparr>"
           and geoms = "[unvalued_solid]"])
     (simp_all add: feature_def building_def solid_def unvalued_solid_def)

lemma create_object_without_encoder:
  assumes "obj_attributes cj_object = Some attributes"
  shows "isl (create_object c cj_id cj_object None)"
    and "obj_geometry cj_object = None \<Longrightarrow> CityObjectType c (obj_type cj_object) = Some n \<Longrightarrow>
           create_object c cj_id cj_object None = Inl (UnboundLocalError ''f_attributes_offset'')"
  using assms
  by (auto simp: create_object_def object_attributes_def Let_def add_if_def read_local_def
        add_enum_def get_attribute_by_name_def split: sum.splits option.splits)

text \<open>
  Claim C10. When a feature holds a city object with an attributes map, calling
  \<^verbatim>\<open>create_feature\<close> with no schema encoder fails with an uncaught exception; when the
  steps before the table are fine (no geometry, a known object type), the exception is
  the read of the unbound local \<^verbatim>\<open>f_attributes_offset\<close>.
\<close>

theorem attributes_without_encoder_fail:
  assumes "(cj_id, cj_object) \<in> set (feat_CityObjects cj_feature)"
    and "obj_attributes cj_object = Some attributes"
  shows "(\<exists>e. create_feature c cj_feature None = Inl e) \<and>
         (\<exists>e. create_object c cj_id cj_object None = Inl e) \<and>
         (obj_geometry cj_object = None \<and> CityObjectType c (obj_type cj_object) \<noteq> None \<longrightarrow>
            create_object c cj_id cj_object None =
              Inl (UnboundLocalError ''f_attributes_offset''))"
proof -
  have o: "isl (create_object c cj_id cj_object None)"
    using assms(2) by (rule create_object_without_encoder(1))
  then have "isl (create_feature c cj_feature None)"
    using assms(1) by (intro create_feature_object_fails)
  then have "\<exists>e. create_feature c cj_feature None = Inl e"
    by (cases "create_feature c cj_feature None") auto
  moreover from o have "\<exists>e. create_object c cj_id cj_object None = Inl e"
    by (cases "create_object c cj_id cj_object None") auto
  ultimately show ?thesis
    using create_object_without_encoder(2) [OF assms(2)] by auto
qed

theorem attributes_without_encoder_fail_witness:
  "(\<exists>e. create_feature spec_collaborators (feature ''b1'' (building None None)) None = Inl e) \<and>
   create_object spec_collaborators ''b1'' (building None None) None =
     Inl (UnboundLocalError ''f_attributes_offset'')"
proof -
  have t: "(\<exists>e. create_feature spec_collaborators (feature ''b1'' (building None None)) None = Inl e) \<and>
         (\<exists>e. create_object spec_collaborators ''b1'' (building None None) None = Inl e) \<and>
         (obj_geometry (building None None) = None \<and>
          CityObjectType spec_collaborators (obj_type (building None None)) \<noteq> None \<longrightarrow>
            create_object spec_collaborators ''b1'' (building None None) None =
              Inl (UnboundLocalError ''f_attributes_offset''))"
    by (rule attributes_without_encoder_fail [where attributes = "[(''name'', JStr ''A'')]"])
       (simp_all add: feature_def building_def)
  have a: "obj_geometry (building None None) = None \<and>
          CityObjectType spec_collaborators (obj_type (building None None)) \<noteq> None"
    by (simp add: building_def spec_collaborators_def city_object_types_def)
  from t have "obj_geometry (building None None) = None \<and>
          CityObjectType spec_collaborators (obj_type (building None None)) \<noteq> None \<longrightarrow>
            create_object spec_collaborators ''b1'' (building None None) None =
              Inl (UnboundLocalError ''f_attributes_offset'')"
    by blast
  from this a have b: "create_object spec_collaborators ''b1'' (building None None) None =
              Inl (UnboundLocalError ''f_attributes_offset'')"
    by (rule mp)
  from t have e: "\<exists>e. create_feature spec_collaborators (feature ''b1'' (building None None)) None = Inl e"
    by (rule conjunct1)
  from e b show ?thesis by (rule conjI)
qed

section \<open>A semantics block with an empty values array\<close>

lemma semantics_block_falsy:
  assumes "geom_semantics geom = Some semantics"
    and "sem_surfaces semantics = Some surfs"
    and "sem_values semantics = Some vals"
  shows "semantics_block c schema_encoder geom =
           (case for_append (create_semantic_object c schema_encoder) surfs of
              Inl e \<Rightarrow> Inl e
            | Inr objs \<Rightarrow>
                if counters_defined c then Inr (vals, Some objs)
                else Inl (NameError ''total_semantics_size''))"
  using assms
  by (simp add: semantics_block_def add_to_counter_def offset_vector_id split: sum.splits)

lemma geometry_end_falsy:
  assumes "\<not> truthy semantic_values"
  shows "geometry_end c geom gd vs semantic_values f_semantics_objects =
         (case geometry_end c (geom\<lparr>geom_semantics := None\<rparr>) gd vs JNull None of
            Inl e \<Rightarrow> Inl e
          | Inr g \<Rightarrow> Inr (g\<lparr>gt_written_semantics_objects := f_semantics_objects\<rparr>))"
  using assms by (simp add: geometry_end_def add_if_def split: sum.splits)

lemma create_geometry_falsy:
  assumes "semantics_block c schema_encoder geom = Inr (semantic_values, f_semantics_objects)"
    and "\<not> truthy semantic_values"
  shows "create_geometry c schema_encoder geom =
         (case create_geometry c schema_encoder (geom\<lparr>geom_semantics := None\<rparr>) of
            Inl e \<Rightarrow> Inl e
          | Inr g \<Rightarrow> Inr (g\<lparr>gt_written_semantics_objects := f_semantics_objects\<rparr>))"
proof -
  have 1: "semantics_block c schema_encoder (geom\<lparr>geom_semantics := None\<rparr>) = Inr (JNull, None)"
    by (simp add: semantics_block_def)
  have 2: "run_geometry_encoder c b semantic_values = run_geometry_encoder c b JNull" for b
    using assms(2) by (simp add: run_geometry_encoder_def cong: sum.case_cong)
  show ?thesis
    by (simp add: create_geometry_def assms(1) 1 2 geometry_end_falsy [OF assms(2)]
          split: sum.splits)
qed

lemma create_geometry_no_semantics:
  assumes "create_geometry c schema_encoder (geom\<lparr>geom_semantics := None\<rparr>) = Inr g"
  shows "gt_semantics g = None \<and> gt_semantics_objects g = None \<and>
         gt_written_semantics_objects g = None"
proof -
  from create_geometry_Inr [OF assms] obtain semantic_values f_semantics_objects gd vs where
    sb: "semantics_block c schema_encoder (geom\<lparr>geom_semantics := None\<rparr>) =
           Inr (semantic_values, f_semantics_objects)" and
    ge: "geometry_end c (geom\<lparr>geom_semantics := None\<rparr>) gd vs semantic_values
           f_semantics_objects = Inr g"
    by blast
  from sb have "semantic_values = JNull" "f_semantics_objects = None"
    by (simp_all add: semantics_block_def)
  with geometry_end_Inr(6,7,9) [OF ge] show ?thesis by simp
qed


text \<open>
  Claim C9, as amended. When the semantics block of a geometry has a surfaces list and
  an empty values array, the surfaces are encoded all the same: an exception raised
  there is the outcome of \<^verbatim>\<open>create_geometry\<close>. When they encode, in a run of the
  script, the outcome is that of the same geometry without a semantics block (the
  same exception, or the same table fields, with neither the semantics nor the
  semantics-objects field), except that the vector of the encoded semantic objects has
  been written into the buffer, where no field refers to it. (Where the counters are
  not bound, the \<^verbatim>\<open>+=\<close> of line 80 raises \<^verbatim>\<open>NameError\<close>.)
\<close>

theorem empty_values_as_no_semantics:
  assumes "geom_semantics geom = Some semantics"
    and "sem_surfaces semantics = Some surfs"
    and "sem_values semantics = Some (JArr [])"
  shows "case for_append (create_semantic_object c schema_encoder) surfs of
           Inl e \<Rightarrow> create_geometry c schema_encoder geom = Inl e
         | Inr objs \<Rightarrow>
             if counters_defined c then
               create_geometry c schema_encoder geom =
                 (case create_geometry c schema_encoder (geom\<lparr>geom_semantics := None\<rparr>) of
                    Inl e \<Rightarrow> Inl e
                  | Inr g \<Rightarrow> Inr (g\<lparr>gt_written_semantics_objects := Some objs\<rparr>)) \<and>
               (case create_geometry c schema_encoder geom of
                  Inl e \<Rightarrow> True
                | Inr g \<Rightarrow>
                    gt_semantics g = None \<and> gt_semantics_objects g = None \<and>
                    gt_written_semantics_objects g = Some objs)
             else create_geometry c schema_encoder geom = Inl (NameError ''total_semantics_size'')"
proof (cases "for_append (create_semantic_object c schema_encoder) surfs")
  case (Inl e)
  with semantics_block_falsy [OF assms, of c schema_encoder]
  show ?thesis by (simp add: create_geometry_def)
next
  case objs: (Inr objs)
  show ?thesis
  proof (cases "counters_defined c")
    case False
    with objs semantics_block_falsy [OF assms, of c schema_encoder]
    show ?thesis by (simp add: create_geometry_def)
  next
    case True
    with objs semantics_block_falsy [OF assms, of c schema_encoder]
    have sb: "semantics_block c schema_encoder geom = Inr (JArr [], Some objs)"
      by simp
    have eq: "create_geometry c schema_encoder geom =
                (case create_geometry c schema_encoder (geom\<lparr>geom_semantics := None\<rparr>) of
                   Inl e \<Rightarrow> Inl e
                 | Inr g \<Rightarrow> Inr (g\<lparr>gt_written_semantics_objects := Some objs\<rparr>))"
      by (rule create_geometry_falsy [OF sb]) simp
    have fields: "case create_geometry c schema_encoder geom of
                    Inl e \<Rightarrow> True
                  | Inr g \<Rightarrow>
                      gt_semantics g = None \<and> gt_semantics_objects g = None \<and>
                      gt_written_semantics_objects g = Some objs"
    proof (cases "create_geometry c schema_encoder (geom\<lparr>geom_semantics := None\<rparr>)")
      case (Inl e)
      with eq show ?thesis by simp
    next
      case (Inr g)
      from create_geometry_no_semantics [OF this] eq Inr show ?thesis by simp
    qed
    from eq fields have both: "create_geometry c schema_encoder geom =
                 (case create_geometry c schema_encoder (geom\<lparr>geom_semantics := None\<rparr>) of
                    Inl e \<Rightarrow> Inl e
                  | Inr g \<Rightarrow> Inr (g\<lparr>gt_written_semantics_objects := Some objs\<rparr>)) \<and>
               (case create_geometry c schema_encoder geom of
                  Inl e \<Rightarrow> True
                | Inr g \<Rightarrow>
                    gt_semantics g = None \<and> gt_semantics_objects g = None \<and>
                    gt_written_semantics_objects g = Some objs)"
      by (rule conjI)
    show ?thesis unfolding objs sum.case if_P [OF True] by (rule both)
  qed
qed

lemma unindexed_surfaces:
  "for_append (create_semantic_object spec_collaborators (Some name_material)) roof_and_wall =
     Inr [\<lparr>so_type = 0, so_attributes = []\<rparr>,
          \<lparr>so_type = 2, so_attributes = [(1, Some (JStr ''brick''))]\<rparr>]"
  by (simp add: model_defs instance_defs example_defs)

lemma create_plain_solid:
  "create_geometry spec_collaborators (Some name_material) (solid None) = Inr plain_table"
  by (simp add: model_defs instance_defs example_defs plain_table_def)

theorem empty_values_as_no_semantics_witness:
  "create_geometry spec_collaborators (Some name_material) unindexed_solid =
     Inr (plain_table\<lparr>gt_written_semantics_objects :=
            Some [\<lparr>so_type = 0, so_attributes = []\<rparr>,
                  \<lparr>so_type = 2, so_attributes = [(1, Some (JStr ''brick''))]\<rparr>]\<rparr>)"
proof -
  have t: "case for_append (create_semantic_object spec_collaborators (Some name_material))
                  roof_and_wall of
           Inl e \<Rightarrow> create_geometry spec_collaborators (Some name_material) unindexed_solid = Inl e
         | Inr objs \<Rightarrow>
             if counters_defined spec_collaborators then
               create_geometry spec_collaborators (Some name_material) unindexed_solid =
                 (case create_geometry spec_collaborators (Some name_material)
                         (unindexed_solid\<lparr>geom_semantics := None\<rparr>) of
                    Inl e \<Rightarrow> Inl e
                  | Inr g \<Rightarrow> Inr (g\<lparr>gt_written_semantics_objects := Some objs\<rparr>)) \<and>
               (case create_geometry spec_collaborators (Some name_material) unindexed_solid of
                  Inl e \<Rightarrow> True
                | Inr g \<Rightarrow>
                    gt_semantics g = None \<and> gt_semantics_objects g = None \<and>
                    gt_written_semantics_objects g = Some objs)
             else create_geometry spec_collaborators (Some name_material) unindexed_solid =
                    Inl (NameError ''total_semantics_size'')"
    by (rule empty_values_as_no_semantics
          [where semantics = "\<lparr>sem_surfaces = Some roof_and_wall, sem_values = Some (JArr [])\<rparr>"])
       (simp_all add: unindexed_solid_def solid_def)
  have p: "unindexed_solid\<lparr>geom_semantics := None\<rparr> = solid None"
    by (simp add: unindexed_solid_def solid_def)
  have d: "counters_defined spec_collaborators"
    by (simp add: spec_collaborators_def)
  from t show ?thesis
    unfolding unindexed_surfaces p create_plain_solid by (simp add: d)
qed

text \<open>
  Claim C9 as stated fails twice. With an empty values array and a surface that has no
  \<^verbatim>\<open>type\<close>, the conversion raises \<^verbatim>\<open>KeyError\<close>, while the same geometry without the
  semantics block is serialised. And with surfaces that encode, the buffer holds their
  vector, which the buffer of the same geometry without the block does not.
\<close>

theorem empty_values_counterexample:
  "create_geometry spec_collaborators (Some name_material) untyped_solid = Inl (KeyError ''type'') \<and>
   create_geometry spec_collaborators (Some name_material) (untyped_solid\<lparr>geom_semantics := None\<rparr>) =
     Inr plain_table \<and>
   create_geometry spec_collaborators (Some name_material) unindexed_solid =
     Inr (plain_table\<lparr>gt_written_semantics_objects :=
            Some [\<lparr>so_type = 0, so_attributes = []\<rparr>,
                  \<lparr>so_type = 2, so_attributes = [(1, Some (JStr ''brick''))]\<rparr>]\<rparr>) \<and>
   create_geometry spec_collaborators (Some name_material) (unindexed_solid\<lparr>geom_semantics := None\<rparr>) =
     Inr plain_table \<and>
   gt_written_semantics_objects plain_table = None"
  by (simp add: model_defs instance_defs example_defs untyped_solid_def unindexed_solid_def
        plain_table_def)

lemma untyped_surface_fails:
  "isl (create_geometry c schema_encoder
          (geom\<lparr>geom_semantics := Some \<lparr>sem_surfaces = Some [[]], sem_values = Some vals\<rparr>\<rparr>))"
  by (simp add: create_geometry_def semantics_block_def create_semantic_object_def dict_get_def
        split: option.splits sum.splits)

section \<open>The container\<close>

lemma magic_bytes:
  "create_magic_bytes 0 4 = Inr (map of_char ''FCB'' @ [0] @ map of_char ''FCB'' @ [4])"
  by (simp add: create_magic_bytes_def encode_ascii_def to_bytes_def)

lemma magic_bytes_values:
  "map of_char ''FCB'' @ [0] @ map of_char ''FCB'' @ [4] = [70, 67, 66, 0, 70, 67, 66, 4 :: byte]"
  by simp

lemma length_le_bytes: "length (le_bytes k n) = k"
  by (induction k arbitrary: n) auto

lemma le_bytes_4:
  "le_bytes 4 n =
     [of_nat (n mod 256), of_nat (n div 256 mod 256), of_nat (n div 256 div 256 mod 256),
      of_nat (n div 256 div 256 div 256 mod 256)]"
proof -
  have e: "(4::nat) = Suc (Suc (Suc (Suc 0)))" by simp
  show ?thesis unfolding e by simp
qed

lemma le_bytes_8_small:
  assumes "n < 256"
  shows "le_bytes 8 n = [of_nat n, 0, 0, 0, 0, 0, 0, 0]"
proof -
  have e: "(8::nat) = Suc (Suc (Suc (Suc (Suc (Suc (Suc (Suc 0)))))))" by simp
  show ?thesis unfolding e using assms by simp
qed

text \<open>The bytes of \<open>le_bytes\<close> are the base-256 digits of the number, lowest first.\<close>

lemma le_bytes_value:
  "n < 256 ^ k \<Longrightarrow> foldr (\<lambda>b acc. unat b + 256 * acc) (le_bytes k n) 0 = n"
proof (induction k arbitrary: n)
  case 0
  then show ?case by simp
next
  case (Suc k)
  from Suc.prems have "n div 256 < 256 ^ k"
    by (simp add: less_mult_imp_div_less mult.commute)
  from Suc.IH [OF this] have "foldr (\<lambda>b acc. unat b + 256 * acc) (le_bytes k (n div 256)) 0 = n div 256" .
  moreover have "unat (of_nat (n mod 256) :: byte) = n mod 256"
    by (simp add: unat_of_nat take_bit_eq_mod)
  ultimately show ?case by simp
qed

lemma to_bytes_length:
  "to_bytes (int n) 4 = Inr bs \<longleftrightarrow> n < 2 ^ 32 \<and> bs = le_bytes 4 n"
  by (auto simp: to_bytes_def)

lemma write_features_done:
  "write_features fb_features written = (written', None) \<longleftrightarrow>
     list_all (\<lambda>fb. length fb < 2 ^ 32) fb_features \<and>
     written' = written @ concat (map (\<lambda>fb. le_bytes 4 (length fb) @ fb) fb_features)"
proof (induction fb_features arbitrary: written)
  case Nil
  then show ?case by auto
next
  case (Cons fb fbs)
  show ?case
  proof (cases "to_bytes (int (length fb)) 4")
    case (Inl e)
    moreover from Inl have "\<not> length fb < 2 ^ 32"
      using to_bytes_length [of "length fb" "le_bytes 4 (length fb)"] by auto
    ultimately show ?thesis by simp
  next
    case (Inr n)
    then have "length fb < 2 ^ 32" "n = le_bytes 4 (length fb)"
      by (simp_all add: to_bytes_length)
    with Inr Cons.IH [of "written @ n @ fb"] show ?thesis by simp
  qed
qed

text \<open>
  Claim C3. The output file of every run that ends without an exception is exactly: the
  8-byte magic prefix (the ASCII tag \<^verbatim>\<open>FCB\<close>, the major version 0, the tag again, the
  minor version 4); then the length of the header table in 4 little-endian bytes and the
  header table; then, for each input feature in input order, the length of its table in
  4 little-endian bytes and the table.
\<close>

theorem container_layout:
  assumes "run_error (convert_cjseq2cb c uninitialised cj_metadata cj_features
                        pretyped_attributes nulls) = None"
  shows "\<exists>global_extent se header_buf warnings fb_features.
     scan_features c uninitialised cj_metadata cj_features
       (se_new c pretyped_attributes nulls) = Inr (global_extent, se) \<and>
     list_all2 (\<lambda>cj_feature fb. create_feature c cj_feature (Some se) = Inr fb)
       cj_features fb_features \<and>
     create_header c cj_metadata global_extent (length cj_features) (Some se) =
       Inr (header_buf, warnings) \<and>
     run_file (convert_cjseq2cb c uninitialised cj_metadata cj_features
                 pretyped_attributes nulls) =
       Some (map of_char ''FCB'' @ [0] @ map of_char ''FCB'' @ [4]
             @ le_bytes 4 (length header_buf) @ header_buf
             @ concat (map (\<lambda>fb. le_bytes 4 (length fb) @ fb) fb_features)) \<and>
     foldr (\<lambda>b acc. unat b + 256 * acc) (le_bytes 4 (length header_buf)) 0 = length header_buf \<and>
     list_all (\<lambda>fb. foldr (\<lambda>b acc. unat b + 256 * acc) (le_bytes 4 (length fb)) 0 = length fb)
       fb_features"
proof -
  let ?run = "convert_cjseq2cb c uninitialised cj_metadata cj_features pretyped_attributes nulls"
  obtain global_extent se where
    scan: "scan_features c uninitialised cj_metadata cj_features
             (se_new c pretyped_attributes nulls) = Inr (global_extent, se)"
    using assms
    by (cases "scan_features c uninitialised cj_metadata cj_features
                 (se_new c pretyped_attributes nulls)")
       (auto simp: convert_cjseq2cb_def)
  obtain fb_features where
    fbs: "for_append (\<lambda>cj_feature. create_feature c cj_feature (Some se)) cj_features =
            Inr fb_features"
    using assms scan
    by (cases "for_append (\<lambda>cj_feature. create_feature c cj_feature (Some se)) cj_features")
       (auto simp: convert_cjseq2cb_def)
  have run: "?run = write_container c cj_metadata global_extent se fb_features"
    using scan fbs by (simp add: convert_cjseq2cb_def)
  from fbs have all2:
    "list_all2 (\<lambda>cj_feature fb. create_feature c cj_feature (Some se) = Inr fb)
       cj_features fb_features"
    by (rule for_append_Inr)
  then have len: "length fb_features = length cj_features"
    by (simp add: list_all2_lengthD)
  obtain header_buf warnings where
    hd: "create_header c cj_metadata global_extent (length cj_features) (Some se) =
           Inr (header_buf, warnings)"
    using assms run len
    by (cases "create_header c cj_metadata global_extent (length cj_features) (Some se)")
       (auto simp: write_container_def magic_bytes)
  have hlen: "length header_buf < 2 ^ 32"
    using assms run len hd to_bytes_length [of "length header_buf"]
    by (cases "to_bytes (int (length header_buf)) 4")
       (auto simp: write_container_def magic_bytes)
  then have tb: "to_bytes (int (length header_buf)) 4 = Inr (le_bytes 4 (length header_buf))"
    by (simp add: to_bytes_length)
  obtain written err where
    wf: "write_features fb_features
           (map of_char ''FCB'' @ [0] @ map of_char ''FCB'' @ [4]
            @ le_bytes 4 (length header_buf) @ header_buf) = (written, err)"
    by (cases "write_features fb_features
           (map of_char ''FCB'' @ [0] @ map of_char ''FCB'' @ [4]
            @ le_bytes 4 (length header_buf) @ header_buf)")
  have run': "?run = \<lparr>run_file = Some written, run_warnings = warnings, run_error = err\<rparr>"
    using run len hd tb wf by (simp add: write_container_def magic_bytes)
  with assms have "err = None" by simp
  with wf have sizes: "list_all (\<lambda>fb. length fb < 2 ^ 32) fb_features"
    and written: "written = (map of_char ''FCB'' @ [0] @ map of_char ''FCB'' @ [4]
            @ le_bytes 4 (length header_buf) @ header_buf)
            @ concat (map (\<lambda>fb. le_bytes 4 (length fb) @ fb) fb_features)"
    by (simp_all add: write_features_done)
  have dec: "list_all (\<lambda>fb. foldr (\<lambda>b acc. unat b + 256 * acc) (le_bytes 4 (length fb)) 0 = length fb)
       fb_features"
    using sizes by (auto simp: list_all_iff intro!: le_bytes_value)
  have hdec: "foldr (\<lambda>b acc. unat b + 256 * acc) (le_bytes 4 (length header_buf)) 0 = length header_buf"
    using hlen by (intro le_bytes_value) simp
  have rf: "run_file ?run = Some (map of_char ''FCB'' @ [0] @ map of_char ''FCB'' @ [4]
             @ le_bytes 4 (length header_buf) @ header_buf
             @ concat (map (\<lambda>fb. le_bytes 4 (length fb) @ fb) fb_features))"
    using run' written by simp
  from scan all2 hd rf hdec dec show ?thesis by blast
qed

text \<open>Conversely, a run whose passes and header succeed with sizes below \<open>2 ^ 32\<close> ends
  without an exception.\<close>

lemma container_written:
  assumes "scan_features c uninitialised cj_metadata cj_features
             (se_new c pretyped_attributes nulls) = Inr (global_extent, se)"
    and "for_append (\<lambda>cj_feature. create_feature c cj_feature (Some se)) cj_features =
           Inr fb_features"
    and "create_header c cj_metadata global_extent (length fb_features) (Some se) =
           Inr (header_buf, warnings)"
    and "length header_buf < 2 ^ 32"
    and "list_all (\<lambda>fb. length fb < 2 ^ 32) fb_features"
  shows "convert_cjseq2cb c uninitialised cj_metadata cj_features pretyped_attributes nulls =
           \<lparr>run_file =
              Some (map of_char ''FCB'' @ [0] @ map of_char ''FCB'' @ [4]
                    @ le_bytes 4 (length header_buf) @ header_buf
                    @ concat (map (\<lambda>fb. le_bytes 4 (length fb) @ fb) fb_features)),
            run_warnings = warnings, run_error = None\<rparr>"
proof -
  have tb: "to_bytes (int (length header_buf)) 4 = Inr (le_bytes 4 (length header_buf))"
    using assms(4) by (simp add: to_bytes_length)
  have wf: "write_features fb_features
              (map of_char ''FCB'' @ [0] @ map of_char ''FCB'' @ [4]
               @ le_bytes 4 (length header_buf) @ header_buf) =
            ((map of_char ''FCB'' @ [0] @ map of_char ''FCB'' @ [4]
               @ le_bytes 4 (length header_buf) @ header_buf)
             @ concat (map (\<lambda>fb. le_bytes 4 (length fb) @ fb) fb_features), None)"
    using assms(5) by (simp only: write_features_done)
  show ?thesis
    using assms(1,2,3) tb wf
    by (simp add: convert_cjseq2cb_def write_container_def magic_bytes)
qed

lemma two_buildings_run:
  "convert_cjseq2cb spec_collaborators zeros transform_only two_buildings [] True =
     \<lparr>run_file =
        Some [70, 67, 66, 0, 70, 67, 66, 4, 8, 0, 0, 0, 2, 0, 0, 0, 0, 0, 0, 0,
              2, 0, 0, 0, 98, 49, 2, 0, 0, 0, 98, 50],
      run_warnings = [''No CRS found in input metadata''], run_error = None\<rparr>"
  by (simp add: model_defs instance_defs example_defs two_buildings_def length_le_bytes
        le_bytes_4 le_bytes_8_small)

theorem container_layout_witness:
  "run_error (convert_cjseq2cb spec_collaborators zeros transform_only two_buildings [] True) = None \<and>
   (\<exists>global_extent se header_buf warnings fb_features.
      scan_features spec_collaborators zeros transform_only two_buildings
        (se_new spec_collaborators [] True) = Inr (global_extent, se) \<and>
      list_all2 (\<lambda>cj_feature fb. create_feature spec_collaborators cj_feature (Some se) = Inr fb)
        two_buildings fb_features \<and>
      create_header spec_collaborators transform_only global_extent (length two_buildings) (Some se) =
        Inr (header_buf, warnings) \<and>
      run_file (convert_cjseq2cb spec_collaborators zeros transform_only two_buildings [] True) =
        Some (map of_char ''FCB'' @ [0] @ map of_char ''FCB'' @ [4]
              @ le_bytes 4 (length header_buf) @ header_buf
              @ concat (map (\<lambda>fb. le_bytes 4 (length fb) @ fb) fb_features)) \<and>
      foldr (\<lambda>b acc. unat b + 256 * acc) (le_bytes 4 (length header_buf)) 0 = length header_buf \<and>
      list_all (\<lambda>fb. foldr (\<lambda>b acc. unat b + 256 * acc) (le_bytes 4 (length fb)) 0 = length fb)
        fb_features)"
proof -
  have e: "run_error (convert_cjseq2cb spec_collaborators zeros transform_only two_buildings
                        [] True) = None"
    by (simp add: two_buildings_run)
  from e container_layout [OF e] show ?thesis by (rule conjI)
qed

section \<open>The header\<close>

lemma filter_dropWhile_disjoint:
  "(\<And>x. Q x \<Longrightarrow> \<not> P x) \<Longrightarrow> filter P (dropWhile Q xs) = filter P xs"
  by (induction xs) auto

lemma space_not_digit: "is_space ch \<Longrightarrow> ch \<notin> set ''0123456789''"
  by (auto simp: is_space_def)

lemma is_digit_iff: "is_digit ch \<longleftrightarrow> ch \<in> set ''0123456789''"
proof
  assume "ch \<in> set ''0123456789''"
  then show "is_digit ch" by (auto simp: is_digit_def)
next
  assume d: "is_digit ch"
  then have "48 \<le> (of_char ch :: nat)" "(of_char ch :: nat) \<le> 57"
    by (simp_all add: is_digit_def Let_def)
  then have "(of_char ch :: nat) \<in> {48, 49, 50, 51, 52, 53, 54, 55, 56, 57}" by simp arith
  also have "{48, 49, 50, 51, 52, 53, 54, 55, 56, 57} = (of_char ` set ''0123456789'' :: nat set)"
    by simp
  finally show "ch \<in> set ''0123456789''"
    by (simp only: inj_image_mem_iff [OF inj_of_char])
qed


lemma digit_value_eq: "digit_value ch = int (of_char ch) - 48"
  by (simp add: digit_value_def)

lemma int_digits_value:
  "int_digits cs acc = Some v \<Longrightarrow>
     v = foldl (\<lambda>n ch. 10 * n + (int (of_char ch) - 48)) acc
           (filter (\<lambda>ch. ch \<in> set ''0123456789'') cs) \<and>
     set cs \<subseteq> set ''0123456789_''"
proof (induction cs acc rule: int_digits.induct)
  case (1 acc)
  then show ?case by simp
next
  case (2 ch cs acc)
  show ?case
  proof (cases "is_digit ch")
    case True
    with 2 show ?thesis
      by (simp add: is_digit_iff [symmetric] digit_value_eq) (auto simp: is_digit_iff)
  next
    case False
    with "2.prems" obtain d ds where
      u: "ch = CHR ''_''" and cs: "cs = d # ds" and d: "is_digit d" and
      r: "int_digits ds (10 * acc + digit_value d) = Some v"
      by (auto split: if_splits list.splits)
    from "2.IH"(2) [OF False u cs d r] u cs d False show ?thesis
      by (simp add: is_digit_iff [symmetric] digit_value_eq) (auto simp: is_digit_iff)
  qed
qed


lemma is_space_iff:
  "is_space ch \<longleftrightarrow>
     ch \<in> set [CHR 0x09, CHR 0x0A, CHR 0x0B, CHR 0x0C, CHR 0x0D, CHR 0x20, CHR 0x85, CHR 0xA0]"
proof
  assume "ch \<in> set [CHR 0x09, CHR 0x0A, CHR 0x0B, CHR 0x0C, CHR 0x0D, CHR 0x20, CHR 0x85, CHR 0xA0]"
  then show "is_space ch" by (auto simp: is_space_def)
next
  assume "is_space ch"
  then have "(of_char ch :: nat) \<in> {9, 10, 11, 12, 13, 32, 133, 160}"
    by (simp add: is_space_def Let_def) arith
  also have "{9, 10, 11, 12, 13, 32, 133, 160} =
    (of_char ` set [CHR 0x09, CHR 0x0A, CHR 0x0B, CHR 0x0C, CHR 0x0D, CHR 0x20, CHR 0x85, CHR 0xA0]
       :: nat set)"
    by simp
  finally show "ch \<in> set [CHR 0x09, CHR 0x0A, CHR 0x0B, CHR 0x0C, CHR 0x0D, CHR 0x20, CHR 0x85, CHR 0xA0]"
    by (simp only: inj_image_mem_iff [OF inj_of_char])
qed

lemma int_digits_plain:
  "set cs \<subseteq> set ''0123456789'' \<Longrightarrow>
     int_digits cs acc = Some (foldl (\<lambda>n ch. 10 * n + (int (of_char ch) - 48)) acc cs)"
proof (induction cs arbitrary: acc)
  case Nil
  then show ?case by simp
next
  case (Cons ch cs)
  then have "is_digit ch" "set cs \<subseteq> set ''0123456789''" by (simp_all add: is_digit_iff)
  with Cons.IH show ?case by (simp add: digit_value_eq)
qed

lemma int_body_value:
  assumes "int_body m s = Some v"
  shows "v = foldl (\<lambda>n ch. 10 * n + (int (of_char ch) - 48)) 0
               (filter (\<lambda>ch. ch \<in> set ''0123456789'') s)"
    and "set s \<subseteq> set ''0123456789_''"
proof -
  from assms obtain ch cs where s: "s = ch # cs" and d: "is_digit ch"
    and r: "int_digits cs (digit_value ch) = Some v"
    by (auto simp: int_body_def split: list.splits if_splits)
  from d have m: "ch \<in> set ''0123456789''" by (simp only: is_digit_iff)
  from int_digits_value [OF r] s m
  show "v = foldl (\<lambda>n ch. 10 * n + (int (of_char ch) - 48)) 0
               (filter (\<lambda>ch. ch \<in> set ''0123456789'') s)"
    by (simp add: digit_value_eq)
  from int_digits_value [OF r] s m show "set s \<subseteq> set ''0123456789_''" by auto
qed

lemma int_body_plain:
  assumes "ds \<noteq> []" and "set ds \<subseteq> set ''0123456789''" and "length ds \<le> 640"
  shows "int_body m ds = Some (foldl (\<lambda>n ch. 10 * n + (int (of_char ch) - 48)) 0 ds)"
proof -
  from assms(1) obtain ch cs where ds: "ds = ch # cs" by (cases ds) auto
  with assms(2) have d: "is_digit ch" and cs: "set cs \<subseteq> set ''0123456789''"
    by (simp_all add: is_digit_iff)
  have "length (filter is_digit ds) \<le> 640"
    by (rule le_trans [OF length_filter_le assms(3)])
  then have "\<not> too_many_digits m ds" by (simp add: too_many_digits_def Let_def)
  with d ds int_digits_plain [OF cs] show ?thesis
    by (simp add: int_body_def digit_value_eq)
qed

lemma set_strip: "set (strip s) \<subseteq> set s"
proof
  fix x assume "x \<in> set (strip s)"
  then have "x \<in> set (dropWhile is_space (rev (dropWhile is_space s)))"
    by (simp add: strip_def)
  then have "x \<in> set (rev (dropWhile is_space s))" by (rule set_dropWhileD)
  then have "x \<in> set (dropWhile is_space s)" by simp
  then show "x \<in> set s" by (rule set_dropWhileD)
qed

lemma mem_dropWhile: "\<not> Q x \<Longrightarrow> x \<in> set (dropWhile Q xs) \<longleftrightarrow> x \<in> set xs"
  by (induction xs) auto

lemma mem_strip: "\<not> is_space x \<Longrightarrow> x \<in> set (strip s) \<longleftrightarrow> x \<in> set s"
  by (simp add: strip_def mem_dropWhile)

lemma filter_strip:
  "(\<And>x. is_space x \<Longrightarrow> \<not> P x) \<Longrightarrow> filter P (strip s) = filter P s"
proof -
  assume a: "\<And>x. is_space x \<Longrightarrow> \<not> P x"
  have "filter P (strip s) = rev (filter P (dropWhile is_space (rev (dropWhile is_space s))))"
    by (simp add: strip_def rev_filter)
  also have "\<dots> = rev (filter P (rev (dropWhile is_space s)))"
    using a by (simp add: filter_dropWhile_disjoint)
  also have "\<dots> = filter P (dropWhile is_space s)" by (simp add: rev_filter)
  also have "\<dots> = filter P s" using a by (simp add: filter_dropWhile_disjoint)
  finally show ?thesis .
qed

lemma strip_shape:
  "set (strip s) \<subseteq> A \<Longrightarrow> set s \<subseteq> A \<union> {ch. is_space ch}"
proof
  fix x assume a: "set (strip s) \<subseteq> A" and x: "x \<in> set s"
  show "x \<in> A \<union> {ch. is_space ch}"
  proof (cases "is_space x")
    case True
    then show ?thesis by simp
  next
    case False
    with x have "x \<in> set (strip s)" by (simp add: mem_strip)
    with a show ?thesis by auto
  qed
qed

lemma py_int_value:
  assumes "py_int m text = Some v"
  shows "v = parsed_integer text"
    and "set text \<subseteq> set ''0123456789_+-'' \<union> {ch. is_space ch}"
proof -
  let ?digits = "filter (\<lambda>ch. ch \<in> set ''0123456789'')"
  let ?horner = "foldl (\<lambda>n ch. 10 * n + (int (of_char ch) - 48)) 0"
  have minus: "\<not> is_space CHR ''-''" by (simp add: is_space_def)
  have f: "?digits (strip text) = ?digits text"
    by (rule filter_strip) (rule space_not_digit)
  have sub: "set ''0123456789_'' \<subseteq> set ''0123456789_+-''" by simp
  have no_minus: "CHR ''-'' \<notin> set ''0123456789_''" by simp
  from assms obtain ch cs where st: "strip text = ch # cs"
    by (auto simp: py_int_def split: list.splits)
  have "v = parsed_integer text \<and> set (strip text) \<subseteq> set ''0123456789_+-''"
  proof (cases "ch = CHR ''-''")
    case True
    with assms st obtain w where w: "int_body m cs = Some w" and v: "v = - w"
      by (auto simp: py_int_def)
    from st True have "CHR ''-'' \<in> set (strip text)" by simp
    then have m: "CHR ''-'' \<in> set text" using set_strip by blast
    from f st True have d: "?digits text = ?digits cs" by simp
    from int_body_value(1) [OF w] have "w = ?horner (?digits text)" by (simp only: d)
    with v m have 1: "v = parsed_integer text" by (simp add: parsed_integer_def)
    from int_body_value(2) [OF w] sub have "set cs \<subseteq> set ''0123456789_+-''" by (rule subset_trans)
    with st True have 2: "set (strip text) \<subseteq> set ''0123456789_+-''" by simp
    from 1 2 show ?thesis by (rule conjI)
  next
    case False
    show ?thesis
    proof (cases "ch = CHR ''+''")
      case True
      with assms st have w: "int_body m cs = Some v"
        by (auto simp: py_int_def)
      from int_body_value(2) [OF w] no_minus have "CHR ''-'' \<notin> set cs" by blast
      with st True have "CHR ''-'' \<notin> set (strip text)" by simp
      then have m: "CHR ''-'' \<notin> set text" using minus by (simp add: mem_strip)
      from f st True have d: "?digits text = ?digits cs" by simp
      from int_body_value(1) [OF w] have "v = ?horner (?digits text)" by (simp only: d)
      with m have 1: "v = parsed_integer text" by (simp add: parsed_integer_def)
      from int_body_value(2) [OF w] sub have "set cs \<subseteq> set ''0123456789_+-''" by (rule subset_trans)
      with st True have 2: "set (strip text) \<subseteq> set ''0123456789_+-''" by simp
      from 1 2 show ?thesis by (rule conjI)
    next
      case plus: False
      with False assms st have w: "int_body m (strip text) = Some v"
        by (auto simp: py_int_def)
      from int_body_value(2) [OF w] no_minus have "CHR ''-'' \<notin> set (strip text)" by blast
      then have m: "CHR ''-'' \<notin> set text" using minus by (simp add: mem_strip)
      from int_body_value(1) [OF w] have "v = ?horner (?digits text)" by (simp only: f)
      with m have 1: "v = parsed_integer text" by (simp add: parsed_integer_def)
      from int_body_value(2) [OF w] sub have 2: "set (strip text) \<subseteq> set ''0123456789_+-''"
        by (rule subset_trans)
      from 1 2 show ?thesis by (rule conjI)
    qed
  qed
  then show "v = parsed_integer text"
    and "set text \<subseteq> set ''0123456789_+-'' \<union> {ch. is_space ch}"
    using strip_shape [of "text" "set ''0123456789_+-''"] by blast+
qed


lemma dropWhile_stop: "xs \<noteq> [] \<Longrightarrow> \<not> Q (hd xs) \<Longrightarrow> dropWhile Q xs = xs"
  by (cases xs) auto

lemma strip_padded:
  assumes "\<forall>ch \<in> set ws1. is_space ch" and "\<forall>ch \<in> set ws2. is_space ch"
    and "body \<noteq> []" and "\<not> is_space (hd body)" and "\<not> is_space (last body)"
  shows "strip (ws1 @ body @ ws2) = body"
proof -
  have 1: "dropWhile is_space (ws1 @ body @ ws2) = body @ ws2"
    using assms(1,3,4) by (simp add: dropWhile_append2 dropWhile_stop)
  have "dropWhile is_space (rev ws2 @ rev body) = dropWhile is_space (rev body)"
    using assms(2) by (intro dropWhile_append2) simp
  also have "\<dots> = rev body"
    using assms(3,5) by (intro dropWhile_stop) (simp_all add: hd_rev)
  finally show ?thesis by (simp add: strip_def 1)
qed

lemma parsed_integer_plain:
  assumes "set ds \<subseteq> set ''0123456789''"
  shows "parsed_integer ds = foldl (\<lambda>n ch. 10 * n + (int (of_char ch) - 48)) 0 ds"
    and "parsed_integer (''+'' @ ds) = foldl (\<lambda>n ch. 10 * n + (int (of_char ch) - 48)) 0 ds"
    and "parsed_integer (''-'' @ ds) = - foldl (\<lambda>n ch. 10 * n + (int (of_char ch) - 48)) 0 ds"
proof -
  from assms have f: "filter (\<lambda>ch. ch \<in> set ''0123456789'') ds = ds"
    by (simp only: filter_id_conv) blast
  have "CHR ''-'' \<notin> set ''0123456789''" by simp
  with assms have m: "CHR ''-'' \<notin> set ds" by blast
  show "parsed_integer ds = foldl (\<lambda>n ch. 10 * n + (int (of_char ch) - 48)) 0 ds"
    using m f by (simp add: parsed_integer_def)
  show "parsed_integer (''+'' @ ds) = foldl (\<lambda>n ch. 10 * n + (int (of_char ch) - 48)) 0 ds"
    using m f by (simp add: parsed_integer_def)
  show "parsed_integer (''-'' @ ds) = - foldl (\<lambda>n ch. 10 * n + (int (of_char ch) - 48)) 0 ds"
    using f by (simp add: parsed_integer_def)
qed

lemma py_int_accepts:
  assumes "set ws1 \<subseteq> set [CHR 0x09, CHR 0x0A, CHR 0x0B, CHR 0x0C, CHR 0x0D, CHR 0x20, CHR 0x85, CHR 0xA0]"
    and "set ws2 \<subseteq> set [CHR 0x09, CHR 0x0A, CHR 0x0B, CHR 0x0C, CHR 0x0D, CHR 0x20, CHR 0x85, CHR 0xA0]"
    and "sg = [] \<or> sg = ''+'' \<or> sg = ''-''"
    and "ds \<noteq> []" and "set ds \<subseteq> set ''0123456789''" and "length ds \<le> 640"
  shows "py_int m (ws1 @ sg @ ds @ ws2) = Some (parsed_integer (sg @ ds))"
proof -
  from assms(1) have w1: "\<forall>ch \<in> set ws1. is_space ch" by (auto simp only: is_space_iff)
  from assms(2) have w2: "\<forall>ch \<in> set ws2. is_space ch" by (auto simp only: is_space_iff)
  have d: "\<not> is_space ch" if "ch \<in> set ds" for ch
    using that assms(5) space_not_digit by blast
  from assms(4) have l: "\<not> is_space (last (sg @ ds))" by (simp add: d)
  have h: "\<not> is_space (hd (sg @ ds))"
    using assms(3,4) by (auto simp: d) (simp_all add: is_space_def)
  have "strip (ws1 @ (sg @ ds) @ ws2) = sg @ ds"
    using w1 w2 _ h l by (rule strip_padded) (simp add: assms(4))
  then have st: "strip (ws1 @ sg @ ds @ ws2) = sg @ ds" by simp
  obtain ch cs where ds: "ds = ch # cs" using assms(4) by (cases ds) auto
  with assms(5) have "ch \<in> set ''0123456789''" by simp
  then have sign: "ch \<noteq> CHR ''-''" "ch \<noteq> CHR ''+''" by auto
  note b = int_body_plain [OF assms(4,5,6), of m]
  from assms(3) show ?thesis
  proof (elim disjE)
    assume "sg = []"
    with st b sign show ?thesis
      by (simp add: py_int_def ds [symmetric] parsed_integer_plain(1) [OF assms(5)])
        (simp add: ds)
  next
    assume "sg = ''+''"
    with st b show ?thesis
      by (simp add: py_int_def parsed_integer_plain(2) [OF assms(5), simplified])
  next
    assume "sg = ''-''"
    with st b show ?thesis
      by (simp add: py_int_def parsed_integer_plain(3) [OF assms(5), simplified])
  qed
qed

lemma py_int_rejects:
  assumes "ch \<in> set s" and "ch \<notin> set ''0123456789_+-''"
    and "ch \<notin> set [CHR 0x09, CHR 0x0A, CHR 0x0B, CHR 0x0C, CHR 0x0D, CHR 0x20, CHR 0x85, CHR 0xA0]"
  shows "py_int m s = None"
proof (cases "py_int m s")
  case None
  then show ?thesis .
next
  case (Some v)
  from py_int_value(2) [OF Some] assms(1,2) have "is_space ch" by blast
  with assms(3) show ?thesis by (simp only: is_space_iff)
qed



lemma header_without_crs:
  assumes "header_crs c cj_metadata = Inr None"
    and "meta_transform cj_metadata = Some tr"
    and "tr_scale tr = Some ts" and "tr_translate tr = Some tt"
    and "first3 ts = Inr scale" and "first3 tt = Inr translate"
    and "for_append (header_column c se) (se_schema c se) = Inr fb_columns"
  shows "create_header_table c cj_metadata geographical_extent features_count (Some se) =
           Inr (\<lparr>ht_features_count = features_count, ht_transform = (scale, translate),
                 ht_reference_system = None, ht_columns = fb_columns,
                 ht_geographical_extent = geographical_extent\<rparr>,
                [''No CRS found in input metadata''])"
  using assms by (simp add: create_header_table_def offset_vector_id)

lemma header_crs_absent:
  assumes "case meta_metadata cj_metadata of None \<Rightarrow> True | Some md \<Rightarrow> md_referenceSystem md = None"
  shows "header_crs c cj_metadata = Inr None"
  using assms by (simp add: header_crs_def split: option.splits)

lemma first3_Inr: "3 \<le> length xs \<Longrightarrow> first3 xs = Inr (xs ! 0, xs ! 1, xs ! 2)"
  by (cases xs rule: first3.cases) auto

lemma create_header_table_Inr:
  assumes "create_header_table c cj_metadata geographical_extent features_count schema_encoder =
             Inr (h, warnings)"
  shows "header_crs c cj_metadata = Inr (ht_reference_system h)"
    and "warnings = (if ht_reference_system h = None then [''No CRS found in input metadata''] else [])"
  using assms
  by (auto simp: create_header_table_def split: option.splits sum.splits)

lemma header_crs_present:
  assumes "meta_metadata cj_metadata = Some md" and "md_referenceSystem md = Some cj_crs"
    and "header_crs c cj_metadata = Inr r"
  shows "\<exists>authority version code.
           last3 (split_on CHR ''/'' cj_crs) = [authority, version, code] \<and>
           py_int (int_max_str_digits c) version = Some (parsed_integer version) \<and>
           py_int (int_max_str_digits c) code = Some (parsed_integer code) \<and>
           r = Some \<lparr>rs_authority = authority, rs_version = parsed_integer version,
                     rs_code = parsed_integer code\<rparr>"
proof -
  from assms obtain authority version code v n where
    l: "last3 (split_on CHR ''/'' cj_crs) = [authority, version, code]" and
    v: "py_int (int_max_str_digits c) version = Some v" and
    n: "py_int (int_max_str_digits c) code = Some n" and
    r: "r = Some \<lparr>rs_authority = authority, rs_version = v, rs_code = n\<rparr>"
    by (auto simp: header_crs_def reference_system_def int_field_def
          split: option.splits sum.splits list.splits if_splits)
  from py_int_value(1) [OF v] py_int_value(1) [OF n] l v n r show ?thesis by simp
qed

lemma header_with_crs:
  assumes "header_crs c cj_metadata = Inr (Some crs)"
    and "meta_transform cj_metadata = Some tr"
    and "tr_scale tr = Some ts" and "tr_translate tr = Some tt"
    and "first3 ts = Inr scale" and "first3 tt = Inr translate"
    and "for_append (header_column c se) (se_schema c se) = Inr fb_columns"
  shows "create_header_table c cj_metadata geographical_extent features_count (Some se) =
           Inr (\<lparr>ht_features_count = features_count, ht_transform = (scale, translate),
                 ht_reference_system = Some crs, ht_columns = fb_columns,
                 ht_geographical_extent = geographical_extent\<rparr>, [])"
  using assms by (simp add: create_header_table_def offset_vector_id)

lemma header_crs_numerals:
  assumes "meta_metadata cj_metadata = Some md" and "md_referenceSystem md = Some cj_crs"
    and "last3 (split_on CHR ''/'' cj_crs) = [authority, version, code]"
    and "version \<noteq> []" and "set version \<subseteq> set ''0123456789''" and "length version \<le> 640"
    and "code \<noteq> []" and "set code \<subseteq> set ''0123456789''" and "length code \<le> 640"
    and "scalar_ok c ''ReferenceSystemAddVersion'' (parsed_integer version)"
    and "scalar_ok c ''ReferenceSystemAddCode'' (parsed_integer code)"
  shows "header_crs c cj_metadata =
           Inr (Some \<lparr>rs_authority = authority, rs_version = parsed_integer version,
                      rs_code = parsed_integer code\<rparr>)"
proof -
  have v: "py_int (int_max_str_digits c) version = Some (parsed_integer version)"
    using py_int_accepts [of "[]" "[]" "[]" version, OF _ _ _ assms(4,5,6)] by simp
  have n: "py_int (int_max_str_digits c) code = Some (parsed_integer code)"
    using py_int_accepts [of "[]" "[]" "[]" code, OF _ _ _ assms(7,8,9)] by simp
  show ?thesis
    using assms(1,2,3,10,11)
    by (simp add: header_crs_def reference_system_def int_field_def v n)
qed


text \<open>
  Claim C7. When the metadata has no reference-system identifier (and the transform has
  its two triples, the columns build, and an encoder is given), \<^verbatim>\<open>create_header\<close>
  succeeds, logs the warning "No CRS found in input metadata", and the header has no
  reference-system record. When the metadata has one and \<^verbatim>\<open>create_header\<close> succeeds, no
  warning is logged and the record's authority, version and code are the last three
  segments of the identifier split at \<^verbatim>\<open>/\<close>, the version and the code being the
  integers that the second and the third segment write in decimal. It does succeed,
  with that record, when these two segments are decimal numerals of at most 640 digits
  whose values the builder accepts. \<^verbatim>\<open>int\<close> reads a numeral with or without a sign and
  with whitespace around it, and refuses a text with any character that is not a
  digit, a sign, an underscore or whitespace.
\<close>

theorem header_reference_system:
  "((case meta_metadata cj_metadata of None \<Rightarrow> True | Some md \<Rightarrow> md_referenceSystem md = None) \<and>
    meta_transform cj_metadata = Some tr \<and> tr_scale tr = Some ts \<and> tr_translate tr = Some tt \<and>
    3 \<le> length ts \<and> 3 \<le> length tt \<and>
    for_append (header_column c se) (se_schema c se) = Inr fb_columns
    \<longrightarrow>
    (\<exists>h. create_header_table c cj_metadata geographical_extent features_count (Some se) =
            Inr (h, [''No CRS found in input metadata'']) \<and>
          ht_reference_system h = None \<and>
          create_header c cj_metadata geographical_extent features_count (Some se) =
            Inr (header_output c h, [''No CRS found in input metadata''])))
   \<and>
   (meta_metadata cj_metadata = Some md \<and> md_referenceSystem md = Some cj_crs \<and>
    create_header c cj_metadata geographical_extent features_count schema_encoder =
      Inr (header_buf, warnings)
    \<longrightarrow>
    (\<exists>h authority version code.
       create_header_table c cj_metadata geographical_extent features_count schema_encoder =
         Inr (h, []) \<and>
       header_buf = header_output c h \<and> warnings = [] \<and>
       last3 (split_on CHR ''/'' cj_crs) = [authority, version, code] \<and>
       py_int (int_max_str_digits c) version = Some (parsed_integer version) \<and>
       py_int (int_max_str_digits c) code = Some (parsed_integer code) \<and>
       ht_reference_system h =
         Some \<lparr>rs_authority = authority, rs_version = parsed_integer version,
               rs_code = parsed_integer code\<rparr>))
   \<and>
   (meta_metadata cj_metadata = Some md \<and> md_referenceSystem md = Some cj_crs \<and>
    last3 (split_on CHR ''/'' cj_crs) = [authority, version, code] \<and>
    version \<noteq> [] \<and> set version \<subseteq> set ''0123456789'' \<and> length version \<le> 640 \<and>
    code \<noteq> [] \<and> set code \<subseteq> set ''0123456789'' \<and> length code \<le> 640 \<and>
    scalar_ok c ''ReferenceSystemAddVersion'' (parsed_integer version) \<and>
    scalar_ok c ''ReferenceSystemAddCode'' (parsed_integer code) \<and>
    meta_transform cj_metadata = Some tr \<and> tr_scale tr = Some ts \<and> tr_translate tr = Some tt \<and>
    3 \<le> length ts \<and> 3 \<le> length tt \<and>
    for_append (header_column c se) (se_schema c se) = Inr fb_columns
    \<longrightarrow>
    create_header_table c cj_metadata geographical_extent features_count (Some se) =
      Inr (\<lparr>ht_features_count = features_count,
            ht_transform = ((ts ! 0, ts ! 1, ts ! 2), (tt ! 0, tt ! 1, tt ! 2)),
            ht_reference_system =
              Some \<lparr>rs_authority = authority, rs_version = parsed_integer version,
                    rs_code = parsed_integer code\<rparr>,
            ht_columns = fb_columns, ht_geographical_extent = geographical_extent\<rparr>, []) \<and>
    create_header c cj_metadata geographical_extent features_count (Some se) =
      Inr (header_output c
             \<lparr>ht_features_count = features_count,
              ht_transform = ((ts ! 0, ts ! 1, ts ! 2), (tt ! 0, tt ! 1, tt ! 2)),
              ht_reference_system =
                Some \<lparr>rs_authority = authority, rs_version = parsed_integer version,
                      rs_code = parsed_integer code\<rparr>,
              ht_columns = fb_columns, ht_geographical_extent = geographical_extent\<rparr>, []))
   \<and>
   (set ws1 \<subseteq> set [CHR 0x09, CHR 0x0A, CHR 0x0B, CHR 0x0C, CHR 0x0D, CHR 0x20, CHR 0x85, CHR 0xA0] \<and>
    set ws2 \<subseteq> set [CHR 0x09, CHR 0x0A, CHR 0x0B, CHR 0x0C, CHR 0x0D, CHR 0x20, CHR 0x85, CHR 0xA0] \<and>
    (sg = [] \<or> sg = ''+'' \<or> sg = ''-'') \<and>
    ds \<noteq> [] \<and> set ds \<subseteq> set ''0123456789'' \<and> length ds \<le> 640
    \<longrightarrow>
    py_int max_str_digits (ws1 @ sg @ ds @ ws2) = Some (parsed_integer (sg @ ds)))
   \<and>
   (ch \<in> set s \<and> ch \<notin> set ''0123456789_+-'' \<and>
    ch \<notin> set [CHR 0x09, CHR 0x0A, CHR 0x0B, CHR 0x0C, CHR 0x0D, CHR 0x20, CHR 0x85, CHR 0xA0]
    \<longrightarrow>
    py_int max_str_digits s = None)"
proof (intro conjI impI)
  assume a: "(case meta_metadata cj_metadata of None \<Rightarrow> True | Some md \<Rightarrow> md_referenceSystem md = None) \<and>
    meta_transform cj_metadata = Some tr \<and> tr_scale tr = Some ts \<and> tr_translate tr = Some tt \<and>
    3 \<le> length ts \<and> 3 \<le> length tt \<and>
    for_append (header_column c se) (se_schema c se) = Inr fb_columns"
  then have a1: "case meta_metadata cj_metadata of None \<Rightarrow> True | Some md \<Rightarrow> md_referenceSystem md = None"
    and a2: "meta_transform cj_metadata = Some tr"
    and a3: "tr_scale tr = Some ts" and a4: "tr_translate tr = Some tt"
    and a5: "3 \<le> length ts" and a6: "3 \<le> length tt"
    and a7: "for_append (header_column c se) (se_schema c se) = Inr fb_columns"
    by simp_all
  have t: "create_header_table c cj_metadata geographical_extent features_count (Some se) =
           Inr (\<lparr>ht_features_count = features_count,
                 ht_transform = ((ts ! 0, ts ! 1, ts ! 2), (tt ! 0, tt ! 1, tt ! 2)),
                 ht_reference_system = None, ht_columns = fb_columns,
                 ht_geographical_extent = geographical_extent\<rparr>,
                [''No CRS found in input metadata''])"
    by (rule header_without_crs [OF header_crs_absent [OF a1] a2 a3 a4
              first3_Inr [OF a5] first3_Inr [OF a6] a7])
  then show "\<exists>h. create_header_table c cj_metadata geographical_extent features_count (Some se) =
            Inr (h, [''No CRS found in input metadata'']) \<and>
          ht_reference_system h = None \<and>
          create_header c cj_metadata geographical_extent features_count (Some se) =
            Inr (header_output c h, [''No CRS found in input metadata''])"
    by (simp add: create_header_def)
next
  assume b: "meta_metadata cj_metadata = Some md \<and> md_referenceSystem md = Some cj_crs \<and>
    create_header c cj_metadata geographical_extent features_count schema_encoder =
      Inr (header_buf, warnings)"
  then obtain h where
    t: "create_header_table c cj_metadata geographical_extent features_count schema_encoder =
          Inr (h, warnings)" and hb: "header_buf = header_output c h"
    by (auto simp: create_header_def split: sum.splits prod.splits)
  from create_header_table_Inr(1) [OF t] b
  obtain authority version code where
    p: "last3 (split_on CHR ''/'' cj_crs) = [authority, version, code]"
       "py_int (int_max_str_digits c) version = Some (parsed_integer version)"
       "py_int (int_max_str_digits c) code = Some (parsed_integer code)"
       "ht_reference_system h =
          Some \<lparr>rs_authority = authority, rs_version = parsed_integer version,
                rs_code = parsed_integer code\<rparr>"
    using header_crs_present [of cj_metadata md cj_crs c "ht_reference_system h"] by auto
  with create_header_table_Inr(2) [OF t] have "warnings = []" by simp
  with t hb p show "\<exists>h authority version code.
       create_header_table c cj_metadata geographical_extent features_count schema_encoder =
         Inr (h, []) \<and>
       header_buf = header_output c h \<and> warnings = [] \<and>
       last3 (split_on CHR ''/'' cj_crs) = [authority, version, code] \<and>
       py_int (int_max_str_digits c) version = Some (parsed_integer version) \<and>
       py_int (int_max_str_digits c) code = Some (parsed_integer code) \<and>
       ht_reference_system h =
         Some \<lparr>rs_authority = authority, rs_version = parsed_integer version,
               rs_code = parsed_integer code\<rparr>"
    by auto
next
  assume n: "meta_metadata cj_metadata = Some md \<and> md_referenceSystem md = Some cj_crs \<and>
    last3 (split_on CHR ''/'' cj_crs) = [authority, version, code] \<and>
    version \<noteq> [] \<and> set version \<subseteq> set ''0123456789'' \<and> length version \<le> 640 \<and>
    code \<noteq> [] \<and> set code \<subseteq> set ''0123456789'' \<and> length code \<le> 640 \<and>
    scalar_ok c ''ReferenceSystemAddVersion'' (parsed_integer version) \<and>
    scalar_ok c ''ReferenceSystemAddCode'' (parsed_integer code) \<and>
    meta_transform cj_metadata = Some tr \<and> tr_scale tr = Some ts \<and> tr_translate tr = Some tt \<and>
    3 \<le> length ts \<and> 3 \<le> length tt \<and>
    for_append (header_column c se) (se_schema c se) = Inr fb_columns"
  then have n1: "meta_metadata cj_metadata = Some md" and n2: "md_referenceSystem md = Some cj_crs"
    and n3: "last3 (split_on CHR ''/'' cj_crs) = [authority, version, code]"
    and v1: "version \<noteq> []" and v2: "set version \<subseteq> set ''0123456789''"
    and v3: "length version \<le> 640"
    and c1: "code \<noteq> []" and c2: "set code \<subseteq> set ''0123456789''" and c3: "length code \<le> 640"
    and s1: "scalar_ok c ''ReferenceSystemAddVersion'' (parsed_integer version)"
    and s2: "scalar_ok c ''ReferenceSystemAddCode'' (parsed_integer code)"
    and a2: "meta_transform cj_metadata = Some tr"
    and a3: "tr_scale tr = Some ts" and a4: "tr_translate tr = Some tt"
    and a5: "3 \<le> length ts" and a6: "3 \<le> length tt"
    and a7: "for_append (header_column c se) (se_schema c se) = Inr fb_columns"
    by blast+
  have t: "create_header_table c cj_metadata geographical_extent features_count (Some se) =
      Inr (\<lparr>ht_features_count = features_count,
            ht_transform = ((ts ! 0, ts ! 1, ts ! 2), (tt ! 0, tt ! 1, tt ! 2)),
            ht_reference_system =
              Some \<lparr>rs_authority = authority, rs_version = parsed_integer version,
                    rs_code = parsed_integer code\<rparr>,
            ht_columns = fb_columns, ht_geographical_extent = geographical_extent\<rparr>, [])"
    by (rule header_with_crs [OF header_crs_numerals [OF n1 n2 n3 v1 v2 v3 c1 c2 c3 s1 s2]
              a2 a3 a4 first3_Inr [OF a5] first3_Inr [OF a6] a7])
  then show "create_header_table c cj_metadata geographical_extent features_count (Some se) =
      Inr (\<lparr>ht_features_count = features_count,
            ht_transform = ((ts ! 0, ts ! 1, ts ! 2), (tt ! 0, tt ! 1, tt ! 2)),
            ht_reference_system =
              Some \<lparr>rs_authority = authority, rs_version = parsed_integer version,
                    rs_code = parsed_integer code\<rparr>,
            ht_columns = fb_columns, ht_geographical_extent = geographical_extent\<rparr>, [])" .
  from t show "create_header c cj_metadata geographical_extent features_count (Some se) =
      Inr (header_output c
             \<lparr>ht_features_count = features_count,
              ht_transform = ((ts ! 0, ts ! 1, ts ! 2), (tt ! 0, tt ! 1, tt ! 2)),
              ht_reference_system =
                Some \<lparr>rs_authority = authority, rs_version = parsed_integer version,
                      rs_code = parsed_integer code\<rparr>,
              ht_columns = fb_columns, ht_geographical_extent = geographical_extent\<rparr>, [])"
    by (simp add: create_header_def)
next
  assume "set ws1 \<subseteq> set [CHR 0x09, CHR 0x0A, CHR 0x0B, CHR 0x0C, CHR 0x0D, CHR 0x20, CHR 0x85, CHR 0xA0] \<and>
    set ws2 \<subseteq> set [CHR 0x09, CHR 0x0A, CHR 0x0B, CHR 0x0C, CHR 0x0D, CHR 0x20, CHR 0x85, CHR 0xA0] \<and>
    (sg = [] \<or> sg = ''+'' \<or> sg = ''-'') \<and>
    ds \<noteq> [] \<and> set ds \<subseteq> set ''0123456789'' \<and> length ds \<le> 640"
  then have "set ws1 \<subseteq> set [CHR 0x09, CHR 0x0A, CHR 0x0B, CHR 0x0C, CHR 0x0D, CHR 0x20, CHR 0x85, CHR 0xA0]"
    and "set ws2 \<subseteq> set [CHR 0x09, CHR 0x0A, CHR 0x0B, CHR 0x0C, CHR 0x0D, CHR 0x20, CHR 0x85, CHR 0xA0]"
    and "sg = [] \<or> sg = ''+'' \<or> sg = ''-''"
    and "ds \<noteq> []" and "set ds \<subseteq> set ''0123456789''" and "length ds \<le> 640"
    by blast+
  then show "py_int max_str_digits (ws1 @ sg @ ds @ ws2) = Some (parsed_integer (sg @ ds))"
    by (rule py_int_accepts)
next
  assume "ch \<in> set s \<and> ch \<notin> set ''0123456789_+-'' \<and>
    ch \<notin> set [CHR 0x09, CHR 0x0A, CHR 0x0B, CHR 0x0C, CHR 0x0D, CHR 0x20, CHR 0x85, CHR 0xA0]"
  then have "ch \<in> set s" and "ch \<notin> set ''0123456789_+-''"
    and "ch \<notin> set [CHR 0x09, CHR 0x0A, CHR 0x0B, CHR 0x0C, CHR 0x0D, CHR 0x20, CHR 0x85, CHR 0xA0]"
    by blast+
  then show "py_int max_str_digits s = None" by (rule py_int_rejects)
qed


theorem header_reference_system_witness:
  "(\<exists>h. create_header_table spec_collaborators transform_only zeros 2 (Some name_material) =
          Inr (h, [''No CRS found in input metadata'']) \<and>
        ht_reference_system h = None \<and>
        create_header spec_collaborators transform_only zeros 2 (Some name_material) =
          Inr (header_output spec_collaborators h, [''No CRS found in input metadata''])) \<and>
   create_header_table spec_collaborators rd_new zeros 2 (Some name_material) =
     Inr (\<lparr>ht_features_count = 2,
           ht_transform = ((Finite 0.01, Finite 0.01, Finite 0.01), (Finite 0, Finite 0, Finite 0)),
           ht_reference_system = Some \<lparr>rs_authority = ''EPSG'', rs_version = 0, rs_code = 7415\<rparr>,
           ht_columns = [(''name'', PyStr), (''material'', PyStr)],
           ht_geographical_extent = zeros\<rparr>, []) \<and>
   create_header spec_collaborators rd_new zeros 2 (Some name_material) =
     Inr ([2, 0, 0, 0, 0, 0, 0, 0], []) \<and>
   (\<exists>h. create_header_table spec_collaborators rd_new zeros 2 (Some name_material) = Inr (h, []) \<and>
        ht_reference_system h =
          Some \<lparr>rs_authority = ''EPSG'', rs_version = 0, rs_code = 7415\<rparr>) \<and>
   py_int 4300 ([CHR '' '', CHR 0x09] @ ''-'' @ ''7415'' @ [CHR 0x0A]) = Some (- 7415) \<and>
   py_int 4300 [CHR 0x1C, CHR ''7''] = None"
proof -
  have a: "(case meta_metadata transform_only of None \<Rightarrow> True
            | Some md \<Rightarrow> md_referenceSystem md = None) \<and>
    meta_transform transform_only =
      Some \<lparr>tr_scale = Some [Finite 0.01, Finite 0.01, Finite 0.01],
            tr_translate = Some [Finite 0, Finite 0, Finite 0]\<rparr> \<and>
    tr_scale \<lparr>tr_scale = Some [Finite 0.01, Finite 0.01, Finite 0.01],
            tr_translate = Some [Finite 0, Finite 0, Finite 0]\<rparr> =
      Some [Finite 0.01, Finite 0.01, Finite 0.01] \<and>
    tr_translate \<lparr>tr_scale = Some [Finite 0.01, Finite 0.01, Finite 0.01],
            tr_translate = Some [Finite 0, Finite 0, Finite 0]\<rparr> =
      Some [Finite 0, Finite 0, Finite 0] \<and>
    3 \<le> length [Finite 0.01, Finite 0.01, Finite 0.01] \<and>
    3 \<le> length [Finite 0, Finite 0, Finite 0] \<and>
    for_append (header_column spec_collaborators name_material)
      (se_schema spec_collaborators name_material) = Inr [(''name'', PyStr), (''material'', PyStr)]"
    by (simp add: model_defs instance_defs example_defs)
  have n: "meta_metadata rd_new =
      Some \<lparr>md_geographicalExtent = None,
            md_referenceSystem = Some ''https://www.opengis.net/def/crs/EPSG/0/7415''\<rparr> \<and>
    md_referenceSystem \<lparr>md_geographicalExtent = None,
            md_referenceSystem = Some ''https://www.opengis.net/def/crs/EPSG/0/7415''\<rparr> =
      Some ''https://www.opengis.net/def/crs/EPSG/0/7415'' \<and>
    last3 (split_on CHR ''/'' ''https://www.opengis.net/def/crs/EPSG/0/7415'') =
      [''EPSG'', ''0'', ''7415''] \<and>
    ''0'' \<noteq> [] \<and> set ''0'' \<subseteq> set ''0123456789'' \<and> length ''0'' \<le> 640 \<and>
    ''7415'' \<noteq> [] \<and> set ''7415'' \<subseteq> set ''0123456789'' \<and> length ''7415'' \<le> 640 \<and>
    scalar_ok spec_collaborators ''ReferenceSystemAddVersion'' (parsed_integer ''0'') \<and>
    scalar_ok spec_collaborators ''ReferenceSystemAddCode'' (parsed_integer ''7415'') \<and>
    meta_transform rd_new =
      Some \<lparr>tr_scale = Some [Finite 0.01, Finite 0.01, Finite 0.01],
            tr_translate = Some [Finite 0, Finite 0, Finite 0]\<rparr> \<and>
    tr_scale \<lparr>tr_scale = Some [Finite 0.01, Finite 0.01, Finite 0.01],
            tr_translate = Some [Finite 0, Finite 0, Finite 0]\<rparr> =
      Some [Finite 0.01, Finite 0.01, Finite 0.01] \<and>
    tr_translate \<lparr>tr_scale = Some [Finite 0.01, Finite 0.01, Finite 0.01],
            tr_translate = Some [Finite 0, Finite 0, Finite 0]\<rparr> =
      Some [Finite 0, Finite 0, Finite 0] \<and>
    3 \<le> length [Finite 0.01, Finite 0.01, Finite 0.01] \<and>
    3 \<le> length [Finite 0, Finite 0, Finite 0] \<and>
    for_append (header_column spec_collaborators name_material)
      (se_schema spec_collaborators name_material) = Inr [(''name'', PyStr), (''material'', PyStr)]"
    by (simp add: model_defs instance_defs example_defs rd_new_def parsed_integer_def)
  have ints: "parsed_integer ''0'' = 0" "parsed_integer ''7415'' = 7415"
    "parsed_integer (''-'' @ ''7415'') = - 7415"
    by (simp_all add: parsed_integer_def)
  have out: "header_output spec_collaborators
       \<lparr>ht_features_count = 2, ht_transform = t, ht_reference_system = r, ht_columns = cs,
        ht_geographical_extent = e\<rparr> = [2, 0, 0, 0, 0, 0, 0, 0]" for t r cs e
    by (simp add: spec_collaborators_def le_bytes_8_small)
  note numerals = header_reference_system
    [where features_count = 2 and geographical_extent = zeros,
      THEN conjunct2, THEN conjunct2, THEN conjunct1, THEN mp, OF n]
  from numerals have table:
    "create_header_table spec_collaborators rd_new zeros 2 (Some name_material) =
       Inr (\<lparr>ht_features_count = 2,
           ht_transform = ((Finite 0.01, Finite 0.01, Finite 0.01), (Finite 0, Finite 0, Finite 0)),
           ht_reference_system = Some \<lparr>rs_authority = ''EPSG'', rs_version = 0, rs_code = 7415\<rparr>,
           ht_columns = [(''name'', PyStr), (''material'', PyStr)],
           ht_geographical_extent = zeros\<rparr>, [])"
    by (simp add: ints)
  from numerals have header:
    "create_header spec_collaborators rd_new zeros 2 (Some name_material) =
       Inr ([2, 0, 0, 0, 0, 0, 0, 0], [])"
    by (simp only: out)
  have b: "meta_metadata rd_new =
      Some \<lparr>md_geographicalExtent = None,
            md_referenceSystem = Some ''https://www.opengis.net/def/crs/EPSG/0/7415''\<rparr> \<and>
    md_referenceSystem \<lparr>md_geographicalExtent = None,
            md_referenceSystem = Some ''https://www.opengis.net/def/crs/EPSG/0/7415''\<rparr> =
      Some ''https://www.opengis.net/def/crs/EPSG/0/7415'' \<and>
    create_header spec_collaborators rd_new zeros 2 (Some name_material) =
      Inr ([2, 0, 0, 0, 0, 0, 0, 0], [])"
    using header by (simp add: rd_new_def with_metadata_def)
  have segments: "last3 (split_on CHR ''/'' ''https://www.opengis.net/def/crs/EPSG/0/7415'') =
      [''EPSG'', ''0'', ''7415'']"
    by (simp add: last3_def)
  from header_reference_system [THEN conjunct2, THEN conjunct1, THEN mp, OF b]
  have present: "\<exists>h. create_header_table spec_collaborators rd_new zeros 2 (Some name_material) =
          Inr (h, []) \<and>
        ht_reference_system h =
          Some \<lparr>rs_authority = ''EPSG'', rs_version = 0, rs_code = 7415\<rparr>"
    unfolding segments by (auto simp: ints)
  have p: "set [CHR '' '', CHR 0x09] \<subseteq>
      set [CHR 0x09, CHR 0x0A, CHR 0x0B, CHR 0x0C, CHR 0x0D, CHR 0x20, CHR 0x85, CHR 0xA0] \<and>
    set [CHR 0x0A] \<subseteq>
      set [CHR 0x09, CHR 0x0A, CHR 0x0B, CHR 0x0C, CHR 0x0D, CHR 0x20, CHR 0x85, CHR 0xA0] \<and>
    (''-'' = [] \<or> ''-'' = ''+'' \<or> ''-'' = ''-'') \<and>
    ''7415'' \<noteq> [] \<and> set ''7415'' \<subseteq> set ''0123456789'' \<and> length ''7415'' \<le> 640"
    by simp
  from header_reference_system
    [THEN conjunct2, THEN conjunct2, THEN conjunct2, THEN conjunct1, THEN mp, OF p]
  have accepted: "py_int 4300 ([CHR '' '', CHR 0x09] @ ''-'' @ ''7415'' @ [CHR 0x0A]) = Some (- 7415)"
    by (simp only: ints)
  have q: "CHR 0x1C \<in> set [CHR 0x1C, CHR ''7''] \<and> CHR 0x1C \<notin> set ''0123456789_+-'' \<and>
    CHR 0x1C \<notin> set [CHR 0x09, CHR 0x0A, CHR 0x0B, CHR 0x0C, CHR 0x0D, CHR 0x20, CHR 0x85, CHR 0xA0]"
    by simp
  from header_reference_system
    [THEN conjunct2, THEN conjunct2, THEN conjunct2, THEN conjunct2, THEN mp, OF q]
  have rejected: "py_int 4300 [CHR 0x1C, CHR ''7''] = None" .
  from header_reference_system [THEN conjunct1, THEN mp, OF a] table header present accepted
    rejected
  show ?thesis by (intro conjI)
qed

section \<open>The schema option\<close>

lemma split_on_nonempty: "split_on c s \<noteq> []"
  by (induction s) (auto split: list.splits)

lemma split_on_no_separator: "c \<notin> set s \<Longrightarrow> split_on c s = [s]"
  by (induction s) auto

lemma split_on_append:
  "c \<notin> set s \<Longrightarrow> split_on c (s @ c # t) = s # split_on c t"
  by (induction s) auto

lemma split_join:
  assumes "ps \<noteq> []" and "list_all (\<lambda>p. c \<notin> set p) ps"
  shows "split_on c (join_with c ps) = ps"
  using assms
proof (induction c ps rule: join_with.induct)
  case (1 c)
  then show ?case by simp
next
  case (2 c p)
  then show ?case by (simp add: split_on_no_separator)
next
  case (3 c p q ps)
  then show ?case by (simp add: split_on_append)
qed

lemma map_of_dict_set: "map_of (dict_set d k v) = (map_of d)(k \<mapsto> v)"
  by (induction d) (auto simp: fun_upd_twist)

lemma fst_dict_set: "set (map fst (dict_set d k v)) = insert k (set (map fst d))"
proof -
  have "dom (map_of (dict_set d k v)) = insert k (dom (map_of d))"
    by (simp add: map_of_dict_set)
  then show ?thesis by (simp add: dom_map_of_conv_image_fst)
qed

lemma type_map_tokens:
  "atype \<in> set [''str'', ''int'', ''float'', ''bool'', ''json''] \<Longrightarrow>
     CHR '':'' \<notin> set atype \<and> CHR '','' \<notin> set atype \<and>
     (\<exists>t. map_of type_map atype = Some t)"
  by (auto simp: type_map_def)

lemma schema_pairs_formatted:
  assumes "list_all (\<lambda>(name, atype). CHR '':'' \<notin> set name \<and> CHR '','' \<notin> set name \<and>
             atype \<in> set [''str'', ''int'', ''float'', ''bool'', ''json'']) pairs"
  shows "\<exists>d. schema_pairs (map (\<lambda>(name, atype). name @ '':'' @ atype) pairs) acc = Inr d \<and>
           (\<forall>name. map_of d name =
              (case map_of (rev pairs) name of
                 None \<Rightarrow> map_of acc name
               | Some atype \<Rightarrow> map_of type_map atype)) \<and>
           set (map fst d) = set (map fst acc) \<union> set (map fst pairs)"
  using assms
proof (induction pairs arbitrary: acc)
  case Nil
  then show ?case by simp
next
  case (Cons pair pairs)
  obtain n a where pair: "pair = (n, a)" by (cases pair)
  from Cons.prems pair have n: "CHR '':'' \<notin> set n"
    and a: "a \<in> set [''str'', ''int'', ''float'', ''bool'', ''json'']"
    and rest: "list_all (\<lambda>(name, atype). CHR '':'' \<notin> set name \<and> CHR '','' \<notin> set name \<and>
             atype \<in> set [''str'', ''int'', ''float'', ''bool'', ''json'']) pairs"
    by simp_all
  from type_map_tokens [OF a] obtain t where a': "CHR '':'' \<notin> set a" and t: "map_of type_map a = Some t"
    by blast
  have sp: "split_on CHR '':'' (n @ '':'' @ a) = [n, a]"
    using n a' by (simp add: split_on_append split_on_no_separator)
  from Cons.IH [OF rest, of "dict_set acc n t"] obtain d where
    d: "schema_pairs (map (\<lambda>(name, atype). name @ '':'' @ atype) pairs) (dict_set acc n t) = Inr d"
    and m: "\<forall>name. map_of d name =
              (case map_of (rev pairs) name of
                 None \<Rightarrow> map_of (dict_set acc n t) name
               | Some atype \<Rightarrow> map_of type_map atype)"
    and k: "set (map fst d) = set (map fst (dict_set acc n t)) \<union> set (map fst pairs)"
    by blast
  have 1: "schema_pairs (map (\<lambda>(name, atype). name @ '':'' @ atype) (pair # pairs)) acc = Inr d"
    using sp t d by (simp add: pair dict_get_def)
  have 2: "map_of d name =
              (case map_of (rev (pair # pairs)) name of
                 None \<Rightarrow> map_of acc name
               | Some atype \<Rightarrow> map_of type_map atype)" for name
    using m t by (auto simp: pair map_of_dict_set map_add_def split: option.splits)
  have 3: "set (map fst d) = set (map fst acc) \<union> set (map fst (pair # pairs))"
    using k by (simp add: pair fst_dict_set del: set_map)
  from 1 2 3 show ?case by blast
qed

text \<open>What the encoder of the design document has seen stays as it was seeded.\<close>

lemma observe_write_nulls: "write_nulls (observe se attributes exclude) = write_nulls se"
  by (induction se attributes exclude rule: observe.induct) (auto split: option.splits)

lemma observe_keeps:
  "map_of (schema se) name = Some t \<Longrightarrow>
     map_of (schema (observe se attributes exclude)) name = Some t"
proof (induction se attributes exclude rule: observe.induct)
  case (1 se exclude)
  then show ?case by simp
next
  case (2 se key v rest exclude)
  let ?se = "if key \<in> set exclude \<or> map_of (schema se) key \<noteq> None then se
        else (case value_kind v of
                None \<Rightarrow> se
              | Some t \<Rightarrow> se\<lparr>schema := schema se @ [(key, t)]\<rparr>)"
  from "2.prems" have "map_of (schema ?se) name = Some t"
    by (auto simp: map_add_def split: option.splits)
  from "2.IH" [OF this] show ?case by simp
qed

lemma scan_geometry_keeps:
  assumes "scan_geometry spec_collaborators se geom = Inr se'"
    and "map_of (schema se) name = Some t"
  shows "map_of (schema se') name = Some t"
proof (cases "geom_semantics geom")
  case None
  with assms show ?thesis by (simp add: scan_geometry_def)
next
  case (Some semantics)
  with assms(1) obtain surfs where
    run: "for_fold (\<lambda>se surface. se_add spec_collaborators se surface
                      [''type'', ''parent'', ''children'']) surfs se = Inr se'"
    by (auto simp: scan_geometry_def split: option.splits)
  show ?thesis
    by (rule for_fold_invariant [OF run, where P = "\<lambda>s. map_of (schema s) name = Some t"])
       (use assms(2) in \<open>auto simp: spec_collaborators_def observe_keeps\<close>)
qed

lemma scan_object_keeps:
  assumes "scan_object spec_collaborators g state cj_object = Inr state'"
    and "map_of (schema (snd state)) name = Some t"
  shows "map_of (schema (snd state')) name = Some t"
proof -
  from assms(1) obtain se1 where
    1: "(case obj_attributes cj_object of
           None \<Rightarrow> Inr (snd state)
         | Some attributes \<Rightarrow> se_add spec_collaborators (snd state) attributes []) = Inr se1"
    and 2: "(case obj_geometry cj_object of
               None \<Rightarrow> Inr se1
             | Some geoms \<Rightarrow> for_fold (scan_geometry spec_collaborators) geoms se1) =
            Inr (snd state')"
    by (auto simp: scan_object_def split: sum.splits)
  from 1 assms(2) have k: "map_of (schema se1) name = Some t"
    by (auto simp: spec_collaborators_def observe_keeps split: option.splits)
  show ?thesis
  proof (cases "obj_geometry cj_object")
    case None
    with 2 k show ?thesis by simp
  next
    case (Some geoms)
    with 2 have run: "for_fold (scan_geometry spec_collaborators) geoms se1 = Inr (snd state')"
      by simp
    show ?thesis
      by (rule for_fold_invariant [OF run, where P = "\<lambda>s. map_of (schema s) name = Some t"])
         (rule k, rule scan_geometry_keeps)
  qed
qed

lemma scan_features_keeps:
  assumes "scan_features spec_collaborators uninitialised cj_metadata cj_features se =
             Inr (global_extent, se')"
    and "map_of (schema se) name = Some t"
  shows "map_of (schema se') name = Some t"
proof -
  from assms(1) obtain g b where
    run: "for_fold (scan_feature spec_collaborators b) cj_features (g, se) =
            Inr (global_extent, se')"
    by (auto simp: scan_features_def split: sum.splits prod.splits)
  have feat: "map_of (schema (snd s2)) name = Some t"
    if "map_of (schema (snd s1)) name = Some t" "scan_feature spec_collaborators b s1 f = Inr s2"
    for s1 f s2
  proof -
    from that(2) have r: "for_fold (scan_object spec_collaborators b)
                         (map snd (feat_CityObjects f)) s1 = Inr s2"
      by (simp add: scan_feature_def)
    show ?thesis
      by (rule for_fold_invariant
            [OF r, where P = "\<lambda>s. map_of (schema (snd s)) name = Some t"])
         (rule that(1), rule scan_object_keeps)
  qed
  have "map_of (schema (snd (global_extent, se'))) name = Some t"
    by (rule for_fold_invariant
          [OF run, where P = "\<lambda>s. map_of (schema (snd s)) name = Some t"])
       (use assms(2) feat in auto)
  then show ?thesis by simp
qed

lemma map_of_dict_get: "dict_get d k = Inr v \<longleftrightarrow> map_of d k = Some v"
  by (simp add: dict_get_def split: option.splits)

lemma header_columns_spec:
  assumes "create_header_table spec_collaborators cj_metadata ext n (Some se) = Inr (h, w)"
    and "map_of (schema se) name = Some t"
  shows "(name, t) \<in> set (ht_columns h)"
proof -
  from assms(1) obtain fb_columns where
    c: "for_append (header_column spec_collaborators se) (se_schema spec_collaborators se) =
          Inr fb_columns"
    and h: "ht_columns h = fb_columns"
    by (auto simp: create_header_table_def offset_vector_id split: option.splits sum.splits)
  from assms(2) have "name \<in> set (map fst (schema se))"
    by (metis map_of_eq_None_iff option.distinct(1) set_map)
  then obtain i where i: "i < length (schema se)" "map fst (schema se) ! i = name"
    by (metis in_set_conv_nth length_map)
  from for_append_Inr [OF c] have
    l: "list_all2 (\<lambda>x y. header_column spec_collaborators se x = Inr y)
          (map fst (schema se)) fb_columns"
    by (simp add: spec_collaborators_def)
  from list_all2_nthD [OF l, of i] i
  have "header_column spec_collaborators se name = Inr (fb_columns ! i)" by simp
  with assms(2) have "fb_columns ! i = (name, t)"
    by (auto simp: header_column_def spec_collaborators_def dict_get_def split: sum.splits)
  moreover from list_all2_lengthD [OF l] i have "i < length fb_columns" by simp
  ultimately show ?thesis using h by (metis nth_mem)
qed


text \<open>
  Claim C8, as amended. The type words of the \<^verbatim>\<open>--schema\<close> option are \<^verbatim>\<open>str\<close>, \<^verbatim>\<open>int\<close>,
  \<^verbatim>\<open>float\<close>, \<^verbatim>\<open>bool\<close> and \<^verbatim>\<open>json\<close> (text, integer, float, boolean, structured). For
  every non-empty list of pairs whose names hold neither a comma nor a colon and whose
  types are among these words, parsing the comma-separated \<^verbatim>\<open>name:type\<close> text succeeds,
  and the map handed to the attribute encoder gives exactly the names of the pairs,
  each with the type of the last pair that names it. The seeded type overrides
  inference: with the attribute encoder of the design document, whatever dataset the
  first pass scans, the column of a seeded name has the seeded type, and the header
  lists it so.
\<close>

theorem schema_option_seeds:
  assumes "pairs \<noteq> []"
    and "list_all (\<lambda>(name, atype). CHR '':'' \<notin> set name \<and> CHR '','' \<notin> set name \<and>
           atype \<in> set [''str'', ''int'', ''float'', ''bool'', ''json'']) pairs"
  shows "\<exists>pretyped_attributes.
     main_pretyped_attributes
       (Some (join_with CHR '','' (map (\<lambda>(name, atype). name @ '':'' @ atype) pairs))) =
       Inr pretyped_attributes \<and>
     (\<forall>name. map_of pretyped_attributes name =
        (case map_of (rev pairs) name of
           None \<Rightarrow> None
         | Some atype \<Rightarrow> map_of type_map atype)) \<and>
     set (map fst pretyped_attributes) = set (map fst pairs) \<and>
     map_of type_map =
       [''str'' \<mapsto> PyStr, ''int'' \<mapsto> PyInt, ''float'' \<mapsto> PyFloat, ''bool'' \<mapsto> PyBool,
        ''json'' \<mapsto> PyDict] \<and>
     (\<forall>uninitialised cj_metadata cj_features nulls global_extent se name t.
        scan_features spec_collaborators uninitialised cj_metadata cj_features
          (se_new spec_collaborators pretyped_attributes nulls) = Inr (global_extent, se) \<and>
        map_of pretyped_attributes name = Some t
        \<longrightarrow>
        se_get_cb_column_type spec_collaborators se name = Inr t \<and>
        (\<forall>extent features_count h warnings.
           create_header_table spec_collaborators cj_metadata extent features_count (Some se) =
             Inr (h, warnings)
           \<longrightarrow> (name, t) \<in> set (ht_columns h)))"
proof -
  let ?parts = "map (\<lambda>(name, atype). name @ '':'' @ atype) pairs"
  have nocomma: "list_all (\<lambda>p. CHR '','' \<notin> set p) ?parts"
    using assms(2) type_map_tokens by (fastforce simp: list_all_iff)
  have ne: "?parts \<noteq> []" using assms(1) by simp
  have sj: "split_on CHR '','' (join_with CHR '','' ?parts) = ?parts"
    by (rule split_join [OF ne nocomma])
  have "join_with CHR '','' ?parts \<noteq> []"
  proof
    assume "join_with CHR '','' ?parts = []"
    with sj have "?parts = [[]]" by simp
    with assms(1) show False by (cases pairs) auto
  qed
  then have run: "main_pretyped_attributes (Some (join_with CHR '','' ?parts)) =
               schema_pairs ?parts []"
    using sj by (simp add: main_pretyped_attributes_def)
  from schema_pairs_formatted [OF assms(2), of "[]"] obtain d where
    d1: "schema_pairs ?parts [] = Inr d" and
    d2: "\<forall>name. map_of d name =
        (case map_of (rev pairs) name of None \<Rightarrow> map_of ([] :: (string \<times> py_type) list) name
         | Some atype \<Rightarrow> map_of type_map atype)" and
    d3: "set (map fst d) = set (map fst ([] :: (string \<times> py_type) list)) \<union> set (map fst pairs)"
    by blast
  from run d1 have p1: "main_pretyped_attributes (Some (join_with CHR '','' ?parts)) = Inr d"
    by simp
  from d2 have p2: "\<forall>name. map_of d name =
        (case map_of (rev pairs) name of None \<Rightarrow> None | Some atype \<Rightarrow> map_of type_map atype)"
    by (simp split: option.splits)
  from d3 have p3: "set (map fst d) = set (map fst pairs)" by simp
  have p4: "map_of type_map =
       [''str'' \<mapsto> PyStr, ''int'' \<mapsto> PyInt, ''float'' \<mapsto> PyFloat, ''bool'' \<mapsto> PyBool,
        ''json'' \<mapsto> PyDict]"
    by (auto simp: type_map_def)
  have p5: "\<forall>uninitialised cj_metadata cj_features nulls global_extent se name t.
        scan_features spec_collaborators uninitialised cj_metadata cj_features
          (se_new spec_collaborators d nulls) = Inr (global_extent, se) \<and>
        map_of d name = Some t
        \<longrightarrow>
        se_get_cb_column_type spec_collaborators se name = Inr t \<and>
        (\<forall>extent features_count h warnings.
           create_header_table spec_collaborators cj_metadata extent features_count (Some se) =
             Inr (h, warnings)
           \<longrightarrow> (name, t) \<in> set (ht_columns h))"
  proof (intro allI impI)
    fix uninitialised cj_metadata cj_features nulls global_extent se name t
    assume a: "scan_features spec_collaborators uninitialised cj_metadata cj_features
          (se_new spec_collaborators d nulls) = Inr (global_extent, se) \<and>
        map_of d name = Some t"
    then have "map_of (schema (se_new spec_collaborators d nulls)) name = Some t"
      by (simp add: spec_collaborators_def)
    with a have k: "map_of (schema se) name = Some t"
      using scan_features_keeps by blast
    then have "se_get_cb_column_type spec_collaborators se name = Inr t"
      by (simp add: spec_collaborators_def dict_get_def)
    moreover have "\<forall>extent features_count h warnings.
           create_header_table spec_collaborators cj_metadata extent features_count (Some se) =
             Inr (h, warnings)
           \<longrightarrow> (name, t) \<in> set (ht_columns h)"
      using header_columns_spec k by blast
    ultimately show "se_get_cb_column_type spec_collaborators se name = Inr t \<and>
        (\<forall>extent features_count h warnings.
           create_header_table spec_collaborators cj_metadata extent features_count (Some se) =
             Inr (h, warnings)
           \<longrightarrow> (name, t) \<in> set (ht_columns h))"
      by (rule conjI)
  qed
  from p1 p2 p3 p4 p5 show ?thesis by (intro exI [of _ d] conjI)
qed

theorem schema_option_seeds_witness:
  "main_pretyped_attributes (Some ''height:float,name:int,height:int'') =
     Inr [(''height'', PyInt), (''name'', PyInt)] \<and>
   scan_features spec_collaborators zeros transform_only [feature ''b1'' (building None None)]
     (se_new spec_collaborators [(''height'', PyInt), (''name'', PyInt)] True) =
     Inr (zeros, \<lparr>schema = [(''height'', PyInt), (''name'', PyInt)], write_nulls = True\<rparr>) \<and>
   se_get_cb_column_type spec_collaborators
     \<lparr>schema = [(''height'', PyInt), (''name'', PyInt)], write_nulls = True\<rparr> ''name'' = Inr PyInt \<and>
   (''name'', PyInt) \<in> set [(''height'', PyInt), (''name'', PyInt)] \<and>
   create_header_table spec_collaborators transform_only zeros 2
     (Some \<lparr>schema = [(''height'', PyInt), (''name'', PyInt)], write_nulls = True\<rparr>) =
     Inr (\<lparr>ht_features_count = 2,
           ht_transform = ((Finite 0.01, Finite 0.01, Finite 0.01), (Finite 0, Finite 0, Finite 0)),
           ht_reference_system = None,
           ht_columns = [(''height'', PyInt), (''name'', PyInt)],
           ht_geographical_extent = zeros\<rparr>, [''No CRS found in input metadata'']) \<and>
   scan_features spec_collaborators zeros transform_only [feature ''b1'' (building None None)]
     (se_new spec_collaborators [] True) =
     Inr (zeros, \<lparr>schema = [(''name'', PyStr)], write_nulls = True\<rparr>)"
proof -
  let ?se = "\<lparr>schema = [(''height'', PyInt), (''name'', PyInt)], write_nulls = True\<rparr>"
  have parsed: "main_pretyped_attributes (Some ''height:float,name:int,height:int'') =
     Inr [(''height'', PyInt), (''name'', PyInt)]"
    by (simp add: main_pretyped_attributes_def dict_get_def type_map_def)
  have joined: "join_with CHR '',''
          (map (\<lambda>(name, atype). name @ '':'' @ atype)
             [(''height'', ''float''), (''name'', ''int''), (''height'', ''int'')]) =
        ''height:float,name:int,height:int''"
    by simp
  have scan: "scan_features spec_collaborators zeros transform_only
     [feature ''b1'' (building None None)]
     (se_new spec_collaborators [(''height'', PyInt), (''name'', PyInt)] True) = Inr (zeros, ?se)"
    by (simp add: model_defs instance_defs example_defs)
  have header: "create_header_table spec_collaborators transform_only zeros 2 (Some ?se) =
     Inr (\<lparr>ht_features_count = 2,
           ht_transform = ((Finite 0.01, Finite 0.01, Finite 0.01), (Finite 0, Finite 0, Finite 0)),
           ht_reference_system = None,
           ht_columns = [(''height'', PyInt), (''name'', PyInt)],
           ht_geographical_extent = zeros\<rparr>, [''No CRS found in input metadata''])"
    by (simp add: model_defs instance_defs example_defs)
  have inferred: "scan_features spec_collaborators zeros transform_only
     [feature ''b1'' (building None None)] (se_new spec_collaborators [] True) =
     Inr (zeros, \<lparr>schema = [(''name'', PyStr)], write_nulls = True\<rparr>)"
    by (simp add: model_defs instance_defs example_defs)
  from schema_option_seeds
    [of "[(''height'', ''float''), (''name'', ''int''), (''height'', ''int'')]"]
  obtain pretyped_attributes where
    p: "main_pretyped_attributes (Some ''height:float,name:int,height:int'') =
          Inr pretyped_attributes"
    and o: "\<forall>uninitialised cj_metadata cj_features nulls global_extent se name t.
        scan_features spec_collaborators uninitialised cj_metadata cj_features
          (se_new spec_collaborators pretyped_attributes nulls) = Inr (global_extent, se) \<and>
        map_of pretyped_attributes name = Some t
        \<longrightarrow>
        se_get_cb_column_type spec_collaborators se name = Inr t \<and>
        (\<forall>extent features_count h warnings.
           create_header_table spec_collaborators cj_metadata extent features_count (Some se) =
             Inr (h, warnings)
           \<longrightarrow> (name, t) \<in> set (ht_columns h))"
    unfolding joined by auto
  from p parsed have d: "pretyped_attributes = [(''height'', PyInt), (''name'', PyInt)]" by simp
  have m: "map_of [(''height'', PyInt), (''name'', PyInt)] ''name'' = Some PyInt" by simp
  from o [unfolded d, rule_format, OF conjI, OF scan m]
  have column: "se_get_cb_column_type spec_collaborators ?se ''name'' = Inr PyInt"
    and columns: "\<forall>extent features_count h warnings.
           create_header_table spec_collaborators transform_only extent features_count (Some ?se) =
             Inr (h, warnings)
           \<longrightarrow> (''name'', PyInt) \<in> set (ht_columns h)"
    by blast+
  from columns [rule_format, OF header]
  have listed: "(''name'', PyInt) \<in> set [(''height'', PyInt), (''name'', PyInt)]" by simp
  from parsed scan column listed header inferred show ?thesis by (intro conjI)
qed

text \<open>
  Claim C8 as stated fails: the words \<^verbatim>\<open>text\<close>, \<^verbatim>\<open>integer\<close>, \<^verbatim>\<open>boolean\<close> and
  \<^verbatim>\<open>structured\<close> are not keys of \<^verbatim>\<open>type_map\<close>, and the lookup raises \<^verbatim>\<open>KeyError\<close>.
  With the words of \<^verbatim>\<open>type_map\<close>, a name given twice is seeded by its last pair.
\<close>

theorem schema_option_counterexample:
  "main_pretyped_attributes (Some ''name:text'') = Inl (KeyError ''text'') \<and>
   main_pretyped_attributes (Some ''height:integer'') = Inl (KeyError ''integer'') \<and>
   main_pretyped_attributes (Some ''roofed:boolean'') = Inl (KeyError ''boolean'') \<and>
   main_pretyped_attributes (Some ''address:structured'') = Inl (KeyError ''structured'') \<and>
   main_pretyped_attributes (Some ''height:float,height:int'') = Inr [(''height'', PyInt)]"
  by (simp add: main_pretyped_attributes_def dict_get_def type_map_def)

section \<open>The two passes\<close>

text \<open>
  Claim C1, at a failing input. The first pass leaves \<^verbatim>\<open>type\<close>, \<^verbatim>\<open>parent\<close> and
  \<^verbatim>\<open>children\<close> of a semantic surface out of the schema (line 374); the second pass
  leaves out \<^verbatim>\<open>type\<close> only (line 70). On a surface with a \<^verbatim>\<open>children\<close> member the
  first pass infers the schema of the single column \<^verbatim>\<open>name\<close>, and the second pass
  presents the key \<^verbatim>\<open>children\<close> to the encoder, which does not have it: the run ends
  with that error and writes no file.
\<close>

theorem schema_drift_on_nested_surfaces:
  "scan_features spec_collaborators zeros transform_only
     [feature ''b1'' (building (Some [nested_solid]) None)] (se_new spec_collaborators [] True) =
     Inr (zeros, name_only) \<and>
   create_feature spec_collaborators (feature ''b1'' (building (Some [nested_solid]) None))
     (Some name_only) = Inl (KeyError ''children'') \<and>
   convert_cjseq2cb spec_collaborators zeros transform_only
     [feature ''b1'' (building (Some [nested_solid]) None)] [] True =
     \<lparr>run_file = None, run_warnings = [], run_error = Some (KeyError ''children'')\<rparr>"
  by (simp add: model_defs instance_defs example_defs nested_roofs_def nested_solid_def
        name_only_def)

section \<open>The dataset extent\<close>

lemma seed_extent_cases:
  "meta_metadata cj_metadata = None \<Longrightarrow>
     seed_extent uninitialised cj_metadata = Inr (uninitialised, True)"
  "meta_metadata cj_metadata = Some md \<Longrightarrow> md_geographicalExtent md = None \<Longrightarrow>
     seed_extent uninitialised cj_metadata =
       Inr (((PosInf, PosInf, PosInf), (NegInf, NegInf, NegInf)), True)"
  "meta_metadata cj_metadata = Some md \<Longrightarrow> md_geographicalExtent md = Some x \<Longrightarrow>
     extent_of_list x = Inr global_extent \<Longrightarrow>
     seed_extent uninitialised cj_metadata = Inr (global_extent, False)"
  by (simp_all add: seed_extent_def)

lemma fold_extent_skipped: "fold_extent False global_extent cj_object = Inr global_extent"
  by (simp add: fold_extent_def)

lemma fold_extent_folds:
  "obj_geographicalExtent cj_object = Some x \<Longrightarrow> extent_of_list x = Inr fext \<Longrightarrow>
     fold_extent True global_extent cj_object =
       Inr (np_minimum (fst global_extent) (fst fext), np_maximum (snd global_extent) (snd fext))"
  by (simp add: fold_extent_def)

lemma scan_object_keeps_extent:
  "scan_object c False state cj_object = Inr state' \<Longrightarrow> fst state' = fst state"
  by (auto simp: scan_object_def fold_extent_def split: sum.splits)

text \<open>A declared dataset extent is the result, whatever the objects declare.\<close>

lemma declared_extent_kept:
  assumes "meta_metadata cj_metadata = Some md" and "md_geographicalExtent md = Some x"
    and "scan_features c uninitialised cj_metadata cj_features schema_encoder =
           Inr (global_extent, se)"
  shows "extent_of_list x = Inr global_extent"
proof -
  from assms obtain g where g: "extent_of_list x = Inr g"
    and run: "for_fold (scan_feature c False) cj_features (g, schema_encoder) =
                Inr (global_extent, se)"
    by (auto simp: scan_features_def seed_extent_def split: sum.splits)
  have obj: "fst s2 = g" if "fst s1 = g" "scan_object c False s1 cj_object = Inr s2"
    for s1 cj_object s2
    using scan_object_keeps_extent [OF that(2)] that(1) by simp
  have feat: "fst s2 = g" if "fst s1 = g" "scan_feature c False s1 f = Inr s2" for s1 f s2
  proof -
    from that(2) have "for_fold (scan_object c False) (map snd (feat_CityObjects f)) s1 = Inr s2"
      by (simp add: scan_feature_def)
    then show ?thesis
      by (rule for_fold_invariant [where P = "\<lambda>s. fst s = g"]) (rule that(1), rule obj)
  qed
  from run have "fst (global_extent, se) = g"
    by (rule for_fold_invariant [where P = "\<lambda>s. fst s = g"]) (simp, rule feat)
  with g show ?thesis by simp
qed

text \<open>
  Claim C2, at a failing input. With a metadata line that has no \<^verbatim>\<open>metadata\<close> member
  the array is never seeded: it keeps what the allocation left in it, and the objects'
  boxes are folded into that. With a \<^verbatim>\<open>metadata\<close> member that declares no extent the
  same objects give the box from \<open>(0, 0, 0)\<close> to \<open>(20, 20, 20)\<close>.
\<close>

theorem extent_unseeded_without_metadata:
  "seed_extent garbage transform_only = Inr (garbage, True) \<and>
   scan_features spec_collaborators garbage transform_only two_boxes
     (se_new spec_collaborators [] True) = Inr (garbage, name_only) \<and>
   scan_features spec_collaborators garbage
     (with_metadata \<lparr>md_geographicalExtent = None, md_referenceSystem = None\<rparr>) two_boxes
     (se_new spec_collaborators [] True) =
     Inr (((Finite 0, Finite 0, Finite 0), (Finite 20, Finite 20, Finite 20)), name_only)"
  by (simp add: model_defs instance_defs example_defs garbage_def two_boxes_def name_only_def)

end
